theory Spec2Isabelle
  imports Main "HOL-Library.Word"
begin

unbundle bit_operations_syntax

section \<open>The trap-dispatch core of the arm64 hypervisor\<close>

text \<open>
  A shallow embedding of \<^verbatim>\<open>handle_exit\<close> and of the class handlers defined in
  \<^verbatim>\<open>src/arch/arm64/kvm/handle_exit.c\<close>. The file includes kernel headers
  that are not part of the sources at hand. Apart from the plain field accessors, every
  constant, macro and function that the file uses but does not define is a field of the
  environment record \<open>env\<close> below, so each result holds for whatever those headers
  and collaborators say, under the hypotheses that are written out.
\<close>

subsection \<open>Machine types\<close>

type_synonym u8 = "8 word"
type_synonym u32 = "32 word"
type_synonym u64 = "64 word"

subsection \<open>The vcpu and the run structure\<close>

text \<open>
  Modelled from the spec: the declarations of \<^verbatim>\<open>struct kvm_vcpu\<close> and
  \<^verbatim>\<open>struct kvm_run\<close> are missing. The records hold the fields that the source
  reads or writes, with the spec's data model (section 3) for what the accessors reach:
  the general registers, the program counter, the processor status, the
  nested-virtualization-enabled flag, the emulated EL2 control and state registers, the
  pending-fault bookkeeping and the exit statistics counters.
\<close>

record kvm_vcpu_stat =
  hvc_exit_stat :: u64
  wfe_exit_stat :: u64
  wfi_exit_stat :: u64

datatype sys_reg = HCR_EL2 | CPTR_EL2

datatype el2_special_reg = ELR_EL2 | SPSR_EL2

datatype fault_kind =
    UndefinedInstruction
  | AsynchronousExternalAbort
  | NestedSync u32

record kvm_vcpu =
  pc :: u64
  cpsr :: u64
  regs :: "nat \<Rightarrow> u64"
  esr_el2 :: u32
  far_el2 :: u64
  sys_regs :: "sys_reg \<Rightarrow> u64"
  el2_special_regs :: "el2_special_reg \<Rightarrow> u64"
  nested_virt :: bool
  requests :: "nat set"
  stat :: kvm_vcpu_stat
  pending_faults :: "fault_kind list"

record kvm_run =
  exit_reason :: u32
  debug_arch_hsr :: u32
  debug_arch_far :: u64

text \<open>The functions that \<^verbatim>\<open>arm_exit_handlers\<close> can hold.\<close>

datatype exit_handle_fn =
    Kvm_handle_unknown_ec
  | Kvm_handle_wfx
  | Kvm_handle_cp15_32
  | Kvm_handle_cp15_64
  | Kvm_handle_cp14_32
  | Kvm_handle_cp14_load_store
  | Kvm_handle_cp14_64
  | Handle_hvc
  | Handle_smc
  | Kvm_handle_sys
  | Kvm_handle_eret
  | Kvm_handle_guest_abort
  | Kvm_handle_guest_debug
  | Kvm_handle_fpasimd

text \<open>
  What one exit leaves behind besides the vcpu and the run structure: the tracepoints it
  fires, the kernel messages it prints and the calls it makes to functions defined
  elsewhere, in program order.
\<close>

datatype event =
    Trace_kvm_hvc_arm64 u64 u64 u32
  | Trace_kvm_wfx_arm64 u64 bool
  | Trace_kvm_nested_eret u64 u64
  | Kvm_err_unhandled_hsr u32
  | Kvm_pr_unimpl_unknown_ec u32
  | Kvm_pr_unimpl_unsupported int
  | Call_kvm_psci_call
  | Call_kvm_inject_undefined
  | Call_kvm_inject_vabt
  | Call_kvm_inject_nested_sync u32
  | Call_handle_hvc_nested
  | Call_handle_wfx_nested bool
  | Call_kvm_vcpu_on_spin
  | Call_kvm_vcpu_block
  | Call_kvm_clear_request nat
  | Call_kvm_skip_instr bool
  | Call_exit_handler exit_handle_fn

record exit_ctx =
  vcpu :: kvm_vcpu
  run :: kvm_run
  events :: "event list"

subsection \<open>The environment: headers and collaborators that the file only uses\<close>

text \<open>
  The exception-class codes and the two syndrome macros of \<^verbatim>\<open>asm/esr.h\<close>.
  The codes are non-negative integer constants; \<^verbatim>\<open>ESR_ELx_EC(esr)\<close> yields a
  32-bit value.
\<close>

record esr_hdr =
  ESR_ELx_EC_MAX :: nat
  ESR_ELx_EC_WFx :: nat
  ESR_ELx_EC_CP15_32 :: nat
  ESR_ELx_EC_CP15_64 :: nat
  ESR_ELx_EC_CP14_MR :: nat
  ESR_ELx_EC_CP14_LS :: nat
  ESR_ELx_EC_CP14_64 :: nat
  ESR_ELx_EC_HVC32 :: nat
  ESR_ELx_EC_SMC32 :: nat
  ESR_ELx_EC_HVC64 :: nat
  ESR_ELx_EC_SMC64 :: nat
  ESR_ELx_EC_SYS64 :: nat
  ESR_ELx_EC_ERET :: nat
  ESR_ELx_EC_IABT_LOW :: nat
  ESR_ELx_EC_DABT_LOW :: nat
  ESR_ELx_EC_SOFTSTP_LOW :: nat
  ESR_ELx_EC_WATCHPT_LOW :: nat
  ESR_ELx_EC_BREAKPT_LOW :: nat
  ESR_ELx_EC_BKPT32 :: nat
  ESR_ELx_EC_BRK64 :: nat
  ESR_ELx_EC_FP_ASIMD :: nat
  ESR_ELx_EC :: "u32 \<Rightarrow> u32"
  ESR_ELx_WFx_ISS_WFE :: u32

text \<open>
  The other constants and macros. The register bits are given at the width of the
  64-bit register they are combined with; \<open>EINVAL\<close> is the positive errno;
  \<open>CONFIG_KVM_ARM_NESTED_PV\<close> says whether that configuration symbol is defined.
\<close>

record kvm_hdr = esr_hdr +
  HCR_TSC :: u64
  CPTR_EL2_TFP :: u64
  PSR_MODE_MASK :: u64
  PSR_MODE_EL1t :: u64
  PSR_MODE_EL1h :: u64
  PSR_MODE_EL2t :: u64
  PSR_MODE_EL2h :: u64
  EINVAL :: int
  KVM_REQ_UNHALT :: nat
  ARM_SERROR_PENDING :: "int \<Rightarrow> bool"
  ARM_EXCEPTION_CODE :: "int \<Rightarrow> int"
  ARM_EXCEPTION_IRQ :: int
  ARM_EXCEPTION_EL1_SERROR :: int
  ARM_EXCEPTION_TRAP :: int
  ARM_EXCEPTION_HYP_GONE :: int
  KVM_EXIT_DEBUG :: u32
  KVM_EXIT_FAIL_ENTRY :: u32
  KVM_EXIT_INTERNAL_ERROR :: u32
  CONFIG_KVM_ARM_NESTED_PV :: bool

text \<open>
  The functions defined elsewhere: the inline predicates of
  \<^verbatim>\<open>asm/kvm_emulate.h\<close>, the fault injection port, the firmware-call service,
  the instruction-skip primitive, the nested handlers, the scheduler entry points and
  the handlers of other files that the table names (\<open>extern_handler\<close>, by the name of the function).
\<close>

record env = kvm_hdr +
  kvm_vcpu_trap_il_is32bit :: "kvm_vcpu \<Rightarrow> bool"
  kvm_vcpu_hvc_get_imm :: "kvm_vcpu \<Rightarrow> u32"
  kvm_condition_valid :: "kvm_vcpu \<Rightarrow> bool"
  forward_nv_traps :: "kvm_vcpu \<Rightarrow> bool"
  vcpu_mode_el1 :: "kvm_vcpu \<Rightarrow> bool"
  vcpu_el2_e2h_is_set :: "kvm_vcpu \<Rightarrow> bool"
  vcpu_el2_tge_is_set :: "kvm_vcpu \<Rightarrow> bool"
  kvm_inject_undefined :: "kvm_vcpu \<Rightarrow> kvm_vcpu"
  kvm_inject_vabt :: "kvm_vcpu \<Rightarrow> kvm_vcpu"
  kvm_inject_nested_sync :: "kvm_vcpu \<Rightarrow> u32 \<Rightarrow> int \<times> kvm_vcpu"
  kvm_psci_call :: "kvm_vcpu \<Rightarrow> int \<times> kvm_vcpu"
  handle_hvc_nested :: "kvm_vcpu \<Rightarrow> int \<times> kvm_vcpu"
  handle_wfx_nested :: "kvm_vcpu \<Rightarrow> bool \<Rightarrow> int \<times> kvm_vcpu"
  kvm_vcpu_on_spin :: "kvm_vcpu \<Rightarrow> kvm_vcpu"
  kvm_vcpu_block :: "kvm_vcpu \<Rightarrow> kvm_vcpu"
  kvm_skip_instr :: "kvm_vcpu \<Rightarrow> bool \<Rightarrow> kvm_vcpu"
  extern_handler :: "exit_handle_fn \<Rightarrow> kvm_vcpu \<Rightarrow> kvm_run \<Rightarrow> int \<times> kvm_vcpu \<times> kvm_run"

subsection \<open>Accessors and small primitives\<close>

text \<open>
  Modelled from the spec: the accessor macros and inline functions of the missing
  headers, as plain field reads (the trap syndrome, the emulated registers, the
  nested-virtualization-enabled flag of the spec's data model).
\<close>

definition kvm_vcpu_get_hsr :: "kvm_vcpu \<Rightarrow> u32" where
  "kvm_vcpu_get_hsr v = esr_el2 v"

definition vcpu_get_reg :: "kvm_vcpu \<Rightarrow> nat \<Rightarrow> u64" where
  "vcpu_get_reg v n = regs v n"

definition vcpu_sys_reg :: "kvm_vcpu \<Rightarrow> sys_reg \<Rightarrow> u64" where
  "vcpu_sys_reg v r = sys_regs v r"

definition vcpu_el2_sreg :: "kvm_vcpu \<Rightarrow> el2_special_reg \<Rightarrow> u64" where
  "vcpu_el2_sreg v r = el2_special_regs v r"

definition nested_virt_in_use :: "kvm_vcpu \<Rightarrow> bool" where
  "nested_virt_in_use v = nested_virt v"

text \<open>
  Modelled from the spec: \<^verbatim>\<open>kvm_clear_request\<close> is missing. It clears one
  request flag of the vcpu (section 4.4: "clear the unhalt requested flag").
\<close>

definition kvm_clear_request :: "nat \<Rightarrow> kvm_vcpu \<Rightarrow> kvm_vcpu" where
  "kvm_clear_request req v = v\<lparr>requests := requests v - {req}\<rparr>"

subsection \<open>Calls, with their record in the event list\<close>

definition emit :: "event \<Rightarrow> exit_ctx \<Rightarrow> exit_ctx" where
  "emit e c = c\<lparr>events := events c @ [e]\<rparr>"

definition do_kvm_inject_undefined :: "env \<Rightarrow> exit_ctx \<Rightarrow> exit_ctx" where
  "do_kvm_inject_undefined E c =
     emit Call_kvm_inject_undefined (c\<lparr>vcpu := kvm_inject_undefined E (vcpu c)\<rparr>)"

definition do_kvm_inject_vabt :: "env \<Rightarrow> exit_ctx \<Rightarrow> exit_ctx" where
  "do_kvm_inject_vabt E c =
     emit Call_kvm_inject_vabt (c\<lparr>vcpu := kvm_inject_vabt E (vcpu c)\<rparr>)"

definition do_kvm_inject_nested_sync :: "env \<Rightarrow> u32 \<Rightarrow> exit_ctx \<Rightarrow> int \<times> exit_ctx" where
  "do_kvm_inject_nested_sync E esr c =
     (let (ret, v) = kvm_inject_nested_sync E (vcpu c) esr
      in (ret, emit (Call_kvm_inject_nested_sync esr) (c\<lparr>vcpu := v\<rparr>)))"

definition do_kvm_psci_call :: "env \<Rightarrow> exit_ctx \<Rightarrow> int \<times> exit_ctx" where
  "do_kvm_psci_call E c =
     (let (ret, v) = kvm_psci_call E (vcpu c)
      in (ret, emit Call_kvm_psci_call (c\<lparr>vcpu := v\<rparr>)))"

definition do_handle_hvc_nested :: "env \<Rightarrow> exit_ctx \<Rightarrow> int \<times> exit_ctx" where
  "do_handle_hvc_nested E c =
     (let (ret, v) = handle_hvc_nested E (vcpu c)
      in (ret, emit Call_handle_hvc_nested (c\<lparr>vcpu := v\<rparr>)))"

definition do_handle_wfx_nested :: "env \<Rightarrow> bool \<Rightarrow> exit_ctx \<Rightarrow> int \<times> exit_ctx" where
  "do_handle_wfx_nested E is_wfe c =
     (let (ret, v) = handle_wfx_nested E (vcpu c) is_wfe
      in (ret, emit (Call_handle_wfx_nested is_wfe) (c\<lparr>vcpu := v\<rparr>)))"

definition do_kvm_vcpu_on_spin :: "env \<Rightarrow> exit_ctx \<Rightarrow> exit_ctx" where
  "do_kvm_vcpu_on_spin E c =
     emit Call_kvm_vcpu_on_spin (c\<lparr>vcpu := kvm_vcpu_on_spin E (vcpu c)\<rparr>)"

definition do_kvm_vcpu_block :: "env \<Rightarrow> exit_ctx \<Rightarrow> exit_ctx" where
  "do_kvm_vcpu_block E c =
     emit Call_kvm_vcpu_block (c\<lparr>vcpu := kvm_vcpu_block E (vcpu c)\<rparr>)"

definition do_kvm_clear_request :: "nat \<Rightarrow> exit_ctx \<Rightarrow> exit_ctx" where
  "do_kvm_clear_request req c =
     emit (Call_kvm_clear_request req) (c\<lparr>vcpu := kvm_clear_request req (vcpu c)\<rparr>)"

definition do_kvm_skip_instr :: "env \<Rightarrow> bool \<Rightarrow> exit_ctx \<Rightarrow> exit_ctx" where
  "do_kvm_skip_instr E is_wide_instr c =
     emit (Call_kvm_skip_instr is_wide_instr)
       (c\<lparr>vcpu := kvm_skip_instr E (vcpu c) is_wide_instr\<rparr>)"

definition do_extern_handler :: "env \<Rightarrow> exit_handle_fn \<Rightarrow> exit_ctx \<Rightarrow> int \<times> exit_ctx" where
  "do_extern_handler E f c =
     (let (ret, v, r) = extern_handler E f (vcpu c) (run c)
      in (ret, c\<lparr>vcpu := v, run := r\<rparr>))"

subsection \<open>The class handlers\<close>

text \<open>
  \<^verbatim>\<open>handle_hvc\<close>. An early \<^verbatim>\<open>return\<close> of the nested block is
  \<open>Inl\<close>; \<open>Inr\<close> falls through to the firmware call.
\<close>

definition handle_hvc :: "env \<Rightarrow> exit_ctx \<Rightarrow> int \<times> exit_ctx" where
  "handle_hvc E c =
     (let c1 = emit (Trace_kvm_hvc_arm64 (pc (vcpu c)) (vcpu_get_reg (vcpu c) 0)
                       (kvm_vcpu_hvc_get_imm E (vcpu c))) c;
          c2 = c1\<lparr>vcpu := (vcpu c1)\<lparr>stat := (stat (vcpu c1))
                   \<lparr>hvc_exit_stat := hvc_exit_stat (stat (vcpu c1)) + 1\<rparr>\<rparr>\<rparr>
      in case (if nested_virt_in_use (vcpu c2) then
                 (if \<not> CONFIG_KVM_ARM_NESTED_PV E then
                    Inl (1, snd (do_kvm_inject_nested_sync E (kvm_vcpu_get_hsr (vcpu c2)) c2))
                  else
                    (let (ret, c3) = do_handle_hvc_nested E c2
                     in if ret < 0 \<and> ret \<noteq> - EINVAL E then Inl (ret, c3)
                        else if ret \<ge> 0 then Inl (ret, c3)
                        else Inr c3))
               else Inr c2) of
           Inl r \<Rightarrow> r
         | Inr c4 \<Rightarrow>
             (let (ret, c5) = do_kvm_psci_call E c4
              in if ret < 0 then (1, do_kvm_inject_undefined E c5)
                 else (ret, c5)))"

definition handle_smc :: "env \<Rightarrow> exit_ctx \<Rightarrow> int \<times> exit_ctx" where
  "handle_smc E c =
     (if forward_nv_traps E (vcpu c) \<and> vcpu_sys_reg (vcpu c) HCR_EL2 AND HCR_TSC E \<noteq> 0 then
        do_kvm_inject_nested_sync E (kvm_vcpu_get_hsr (vcpu c)) c
      else if kvm_vcpu_hvc_get_imm E (vcpu c) \<noteq> 0 then
        (1, do_kvm_inject_undefined E c)
      else
        (let (ret, c1) = do_kvm_psci_call E c
         in if ret < 0 then (1, do_kvm_inject_undefined E c1)
            else (ret, do_kvm_skip_instr E (kvm_vcpu_trap_il_is32bit E (vcpu c1)) c1)))"

definition kvm_handle_fpasimd :: "env \<Rightarrow> exit_ctx \<Rightarrow> int \<times> exit_ctx" where
  "kvm_handle_fpasimd E c =
     (if vcpu_sys_reg (vcpu c) CPTR_EL2 AND CPTR_EL2_TFP E \<noteq> 0 then
        do_kvm_inject_nested_sync E (kvm_vcpu_get_hsr (vcpu c)) c
      else (1, do_kvm_inject_undefined E c))"

definition kvm_handle_wfx :: "env \<Rightarrow> exit_ctx \<Rightarrow> int \<times> exit_ctx" where
  "kvm_handle_wfx E c =
     (let is_wfe = (kvm_vcpu_get_hsr (vcpu c) AND ESR_ELx_WFx_ISS_WFE E \<noteq> 0)
      in case (if nested_virt_in_use (vcpu c) then
                 (let (ret, c1) = do_handle_wfx_nested E is_wfe c
                  in if ret < 0 \<and> ret \<noteq> - EINVAL E then Inl (ret, c1)
                     else if ret \<ge> 0 then Inl (ret, c1)
                     else Inr c1)
               else Inr c) of
           Inl r \<Rightarrow> r
         | Inr c2 \<Rightarrow>
             (let c3 =
                (if is_wfe then
                   (let t = emit (Trace_kvm_wfx_arm64 (pc (vcpu c2)) True) c2;
                        s = t\<lparr>vcpu := (vcpu t)\<lparr>stat := (stat (vcpu t))
                               \<lparr>wfe_exit_stat := wfe_exit_stat (stat (vcpu t)) + 1\<rparr>\<rparr>\<rparr>
                    in do_kvm_vcpu_on_spin E s)
                 else
                   (let t = emit (Trace_kvm_wfx_arm64 (pc (vcpu c2)) False) c2;
                        s = t\<lparr>vcpu := (vcpu t)\<lparr>stat := (stat (vcpu t))
                               \<lparr>wfi_exit_stat := wfi_exit_stat (stat (vcpu t)) + 1\<rparr>\<rparr>\<rparr>
                    in do_kvm_clear_request (KVM_REQ_UNHALT E) (do_kvm_vcpu_block E s)))
              in (1, do_kvm_skip_instr E (kvm_vcpu_trap_il_is32bit E (vcpu c3)) c3)))"

text \<open>
  \<^verbatim>\<open>kvm_handle_guest_debug\<close>. The \<^verbatim>\<open>switch\<close> compares the 32-bit
  value of \<^verbatim>\<open>ESR_ELx_EC(hsr)\<close> with the case labels; the watchpoint case
  falls through to the \<^verbatim>\<open>break\<close> of the other four.
\<close>

definition kvm_handle_guest_debug :: "env \<Rightarrow> exit_ctx \<Rightarrow> int \<times> exit_ctx" where
  "kvm_handle_guest_debug E c =
     (let hsr = kvm_vcpu_get_hsr (vcpu c);
          c1 = c\<lparr>run := (run c)\<lparr>exit_reason := KVM_EXIT_DEBUG E\<rparr>\<rparr>;
          c2 = c1\<lparr>run := (run c1)\<lparr>debug_arch_hsr := hsr\<rparr>\<rparr>;
          ec = unat (ESR_ELx_EC E hsr)
      in if ec = ESR_ELx_EC_WATCHPT_LOW E then
           (0, c2\<lparr>run := (run c2)\<lparr>debug_arch_far := far_el2 (vcpu c2)\<rparr>\<rparr>)
         else if ec = ESR_ELx_EC_SOFTSTP_LOW E \<or> ec = ESR_ELx_EC_BREAKPT_LOW E
                 \<or> ec = ESR_ELx_EC_BKPT32 E \<or> ec = ESR_ELx_EC_BRK64 E then
           (0, c2)
         else (- 1, emit (Kvm_err_unhandled_hsr hsr) c2))"

definition kvm_handle_unknown_ec :: "env \<Rightarrow> exit_ctx \<Rightarrow> int \<times> exit_ctx" where
  "kvm_handle_unknown_ec E c =
     (let hsr = kvm_vcpu_get_hsr (vcpu c);
          c1 = emit (Kvm_pr_unimpl_unknown_ec hsr) c
      in (1, do_kvm_inject_undefined E c1))"

text \<open>
  \<^verbatim>\<open>kvm_handle_eret\<close>. \<^verbatim>\<open>u32 mode\<close> keeps the low 32 bits of the
  masked status; the comparison with \<^verbatim>\<open>PSR_MODE_EL1h\<close> is at that width.
\<close>

definition kvm_handle_eret :: "env \<Rightarrow> exit_ctx \<Rightarrow> int \<times> exit_ctx" where
  "kvm_handle_eret E c =
     (let c1 = emit (Trace_kvm_nested_eret (vcpu_el2_sreg (vcpu c) ELR_EL2)
                       (vcpu_el2_sreg (vcpu c) SPSR_EL2)) c
      in if forward_nv_traps E (vcpu c1) then
           do_kvm_inject_nested_sync E (kvm_vcpu_get_hsr (vcpu c1)) c1
         else
           (let v1 = (vcpu c1)\<lparr>pc := vcpu_el2_sreg (vcpu c1) ELR_EL2\<rparr>;
                v2 = v1\<lparr>cpsr := vcpu_el2_sreg v1 SPSR_EL2\<rparr>;
                v5 =
                  (if vcpu_mode_el1 E v2 \<and> vcpu_el2_e2h_is_set E v2
                      \<and> vcpu_el2_tge_is_set E v2 then
                     (let mode = (ucast (cpsr v2 AND PSR_MODE_MASK E) :: u32);
                          v3 = v2\<lparr>cpsr := cpsr v2 AND NOT (PSR_MODE_MASK E)\<rparr>
                      in if mode = ucast (PSR_MODE_EL1h E) then
                           v3\<lparr>cpsr := cpsr v3 OR PSR_MODE_EL2h E\<rparr>
                         else v3\<lparr>cpsr := cpsr v3 OR PSR_MODE_EL2t E\<rparr>)
                   else v2)
            in (1, c1\<lparr>vcpu := v5\<rparr>)))"

subsection \<open>The class handler table\<close>

text \<open>
  \<^verbatim>\<open>arm_exit_handlers\<close> is an array with designated initialisers: the range
  \<^verbatim>\<open>[0 ... ESR_ELx_EC_MAX]\<close> first, then one designator per line, a later one
  overriding an earlier one at the same index. A designator beyond the current end
  lengthens the array and leaves null pointers (\<open>None\<close>) in the gap.
\<close>

definition set_entry :: "nat \<times> exit_handle_fn \<Rightarrow> exit_handle_fn option list \<Rightarrow> exit_handle_fn option list" where
  "set_entry d t =
     (if fst d < length t then t[fst d := Some (snd d)]
      else t @ replicate (fst d - length t) None @ [Some (snd d)])"

definition exit_handler_designators :: "env \<Rightarrow> (nat \<times> exit_handle_fn) list" where
  "exit_handler_designators E =
     [(ESR_ELx_EC_WFx E, Kvm_handle_wfx),
      (ESR_ELx_EC_CP15_32 E, Kvm_handle_cp15_32),
      (ESR_ELx_EC_CP15_64 E, Kvm_handle_cp15_64),
      (ESR_ELx_EC_CP14_MR E, Kvm_handle_cp14_32),
      (ESR_ELx_EC_CP14_LS E, Kvm_handle_cp14_load_store),
      (ESR_ELx_EC_CP14_64 E, Kvm_handle_cp14_64),
      (ESR_ELx_EC_HVC32 E, Handle_hvc),
      (ESR_ELx_EC_SMC32 E, Handle_smc),
      (ESR_ELx_EC_HVC64 E, Handle_hvc),
      (ESR_ELx_EC_SMC64 E, Handle_smc),
      (ESR_ELx_EC_SYS64 E, Kvm_handle_sys),
      (ESR_ELx_EC_ERET E, Kvm_handle_eret),
      (ESR_ELx_EC_IABT_LOW E, Kvm_handle_guest_abort),
      (ESR_ELx_EC_DABT_LOW E, Kvm_handle_guest_abort),
      (ESR_ELx_EC_SOFTSTP_LOW E, Kvm_handle_guest_debug),
      (ESR_ELx_EC_WATCHPT_LOW E, Kvm_handle_guest_debug),
      (ESR_ELx_EC_BREAKPT_LOW E, Kvm_handle_guest_debug),
      (ESR_ELx_EC_BKPT32 E, Kvm_handle_guest_debug),
      (ESR_ELx_EC_BRK64 E, Kvm_handle_guest_debug),
      (ESR_ELx_EC_FP_ASIMD E, Kvm_handle_fpasimd)]"

definition arm_exit_handlers :: "env \<Rightarrow> exit_handle_fn option list" where
  "arm_exit_handlers E =
     fold set_entry (exit_handler_designators E)
       (replicate (ESR_ELx_EC_MAX E + 1) (Some Kvm_handle_unknown_ec))"

text \<open>
  What can go wrong in C where the model has no value to give: a read past the end of
  the table, and a call through a null pointer.
\<close>

datatype fault = Out_of_bounds | Null_call

text \<open>
  \<^verbatim>\<open>kvm_get_exit_handler\<close>: \<^verbatim>\<open>u8 hsr_ec\<close> keeps the low 8 bits of
  the class.
\<close>

definition kvm_get_exit_handler :: "env \<Rightarrow> kvm_vcpu \<Rightarrow> fault + exit_handle_fn option" where
  "kvm_get_exit_handler E v =
     (let hsr = kvm_vcpu_get_hsr v;
          hsr_ec = (ucast (ESR_ELx_EC E hsr) :: u8)
      in if unat hsr_ec < length (arm_exit_handlers E)
         then Inr (arm_exit_handlers E ! unat hsr_ec)
         else Inl Out_of_bounds)"

text \<open>The call through the function pointer \<^verbatim>\<open>exit_handler(vcpu, run)\<close>.\<close>

definition call_exit_handler :: "env \<Rightarrow> exit_handle_fn \<Rightarrow> exit_ctx \<Rightarrow> int \<times> exit_ctx" where
  "call_exit_handler E f c =
     (let c1 = emit (Call_exit_handler f) c
      in case f of
           Kvm_handle_unknown_ec \<Rightarrow> kvm_handle_unknown_ec E c1
         | Kvm_handle_wfx \<Rightarrow> kvm_handle_wfx E c1
         | Handle_hvc \<Rightarrow> handle_hvc E c1
         | Handle_smc \<Rightarrow> handle_smc E c1
         | Kvm_handle_eret \<Rightarrow> kvm_handle_eret E c1
         | Kvm_handle_guest_debug \<Rightarrow> kvm_handle_guest_debug E c1
         | Kvm_handle_fpasimd \<Rightarrow> kvm_handle_fpasimd E c1
         | _ \<Rightarrow> do_extern_handler E f c1)"

subsection \<open>The top-level exit state machine\<close>

definition handle_exit :: "env \<Rightarrow> exit_ctx \<Rightarrow> int \<Rightarrow> fault + int \<times> exit_ctx" where
  "handle_exit E c exception_index =
     (if ARM_SERROR_PENDING E exception_index then
        (let hsr_ec = (ucast (ESR_ELx_EC E (kvm_vcpu_get_hsr (vcpu c))) :: u8);
             c1 =
               (if unat hsr_ec = ESR_ELx_EC_HVC32 E \<or> unat hsr_ec = ESR_ELx_EC_HVC64 E
                   \<or> unat hsr_ec = ESR_ELx_EC_SMC32 E \<or> unat hsr_ec = ESR_ELx_EC_SMC64 E then
                  (let adj = (if kvm_vcpu_trap_il_is32bit E (vcpu c) then 4 else 2 :: u32)
                   in c\<lparr>vcpu := (vcpu c)\<lparr>pc := pc (vcpu c) - ucast adj\<rparr>\<rparr>)
                else c)
         in Inr (1, do_kvm_inject_vabt E c1))
      else
        (let code = ARM_EXCEPTION_CODE E exception_index
         in if code = ARM_EXCEPTION_IRQ E then Inr (1, c)
            else if code = ARM_EXCEPTION_EL1_SERROR E then Inr (1, do_kvm_inject_vabt E c)
            else if code = ARM_EXCEPTION_TRAP E then
              (if \<not> kvm_condition_valid E (vcpu c) then
                 Inr (1, do_kvm_skip_instr E (kvm_vcpu_trap_il_is32bit E (vcpu c)) c)
               else
                 (case kvm_get_exit_handler E (vcpu c) of
                    Inl e \<Rightarrow> Inl e
                  | Inr None \<Rightarrow> Inl Null_call
                  | Inr (Some exit_handler) \<Rightarrow> Inr (call_exit_handler E exit_handler c)))
            else if code = ARM_EXCEPTION_HYP_GONE E then
              Inr (0, c\<lparr>run := (run c)\<lparr>exit_reason := KVM_EXIT_FAIL_ENTRY E\<rparr>\<rparr>)
            else
              (let c1 = emit (Kvm_pr_unimpl_unsupported code) c
               in Inr (0, c1\<lparr>run := (run c1)\<lparr>exit_reason := KVM_EXIT_INTERNAL_ERROR E\<rparr>\<rparr>))))"

subsection \<open>An instance of the environment\<close>

text \<open>
  For evaluating the definitions at concrete inputs: the encodings of the arm64
  architecture for the constants and macros (the exception class is bits 31:26 of the
  syndrome, the instruction-length flag is bit 25, the call immediate is bits 15:0),
  and small stand-ins for the collaborators. The stand-ins keep a list of pending faults
  in the vcpu; the firmware-call stand-in knows one function identifier; the nested
  wait handler forwards a wait instruction that the virtual \<open>HCR_EL2\<close> traps (TWI is bit
  13, TWE bit 14) and reports "not applicable" otherwise; blocking returns with the
  unhalt request raised; skipping advances the PC by 4 or 2, as section 6 of the spec
  describes the instruction-skip primitive.
\<close>

definition arm64_inject_nested_sync :: "kvm_vcpu \<Rightarrow> u32 \<Rightarrow> int \<times> kvm_vcpu" where
  "arm64_inject_nested_sync v esr = (1, v\<lparr>pending_faults := pending_faults v @ [NestedSync esr]\<rparr>)"

definition arm64_psci_call :: "kvm_vcpu \<Rightarrow> int \<times> kvm_vcpu" where
  "arm64_psci_call v =
     (if regs v 0 = 0x84000000 then (1, v\<lparr>regs := (regs v)(0 := 0x10000)\<rparr>)
      else (- 22, v))"

definition arm64_handle_wfx_nested :: "kvm_vcpu \<Rightarrow> bool \<Rightarrow> int \<times> kvm_vcpu" where
  "arm64_handle_wfx_nested v is_wfe =
     (if (is_wfe \<and> sys_regs v HCR_EL2 AND 0x4000 \<noteq> 0)
         \<or> (\<not> is_wfe \<and> sys_regs v HCR_EL2 AND 0x2000 \<noteq> 0)
      then arm64_inject_nested_sync v (esr_el2 v)
      else (- 22, v))"

definition arm64_env :: env where
  "arm64_env =
     \<lparr>ESR_ELx_EC_MAX = 0x3F,
      ESR_ELx_EC_WFx = 0x01,
      ESR_ELx_EC_CP15_32 = 0x03,
      ESR_ELx_EC_CP15_64 = 0x04,
      ESR_ELx_EC_CP14_MR = 0x05,
      ESR_ELx_EC_CP14_LS = 0x06,
      ESR_ELx_EC_CP14_64 = 0x0C,
      ESR_ELx_EC_HVC32 = 0x12,
      ESR_ELx_EC_SMC32 = 0x13,
      ESR_ELx_EC_HVC64 = 0x16,
      ESR_ELx_EC_SMC64 = 0x17,
      ESR_ELx_EC_SYS64 = 0x18,
      ESR_ELx_EC_ERET = 0x1A,
      ESR_ELx_EC_IABT_LOW = 0x20,
      ESR_ELx_EC_DABT_LOW = 0x24,
      ESR_ELx_EC_SOFTSTP_LOW = 0x32,
      ESR_ELx_EC_WATCHPT_LOW = 0x34,
      ESR_ELx_EC_BREAKPT_LOW = 0x30,
      ESR_ELx_EC_BKPT32 = 0x38,
      ESR_ELx_EC_BRK64 = 0x3C,
      ESR_ELx_EC_FP_ASIMD = 0x07,
      ESR_ELx_EC = (\<lambda>esr. drop_bit 26 (esr AND 0xFC000000)),
      ESR_ELx_WFx_ISS_WFE = 1,
      HCR_TSC = 0x80000,
      CPTR_EL2_TFP = 0x400,
      PSR_MODE_MASK = 0xF,
      PSR_MODE_EL1t = 4,
      PSR_MODE_EL1h = 5,
      PSR_MODE_EL2t = 8,
      PSR_MODE_EL2h = 9,
      EINVAL = 22,
      KVM_REQ_UNHALT = 3,
      ARM_SERROR_PENDING = (\<lambda>x. (x div 2147483648) mod 2 = 1),
      ARM_EXCEPTION_CODE = (\<lambda>x. x mod 2147483648),
      ARM_EXCEPTION_IRQ = 0,
      ARM_EXCEPTION_EL1_SERROR = 1,
      ARM_EXCEPTION_TRAP = 2,
      ARM_EXCEPTION_HYP_GONE = 3,
      KVM_EXIT_DEBUG = 4,
      KVM_EXIT_FAIL_ENTRY = 9,
      KVM_EXIT_INTERNAL_ERROR = 17,
      CONFIG_KVM_ARM_NESTED_PV = False,
      kvm_vcpu_trap_il_is32bit = (\<lambda>v. esr_el2 v AND 0x2000000 \<noteq> 0),
      kvm_vcpu_hvc_get_imm = (\<lambda>v. esr_el2 v AND 0xFFFF),
      kvm_condition_valid = (\<lambda>v. cpsr v AND 0x10 = 0 \<or> esr_el2 v AND 0x1000000 = 0),
      forward_nv_traps = (\<lambda>v. nested_virt v \<and> sys_regs v HCR_EL2 AND 0x40000000000 \<noteq> 0),
      vcpu_mode_el1 = (\<lambda>v. cpsr v AND 0x10 = 0 \<and> (cpsr v AND 0xF = 4 \<or> cpsr v AND 0xF = 5)),
      vcpu_el2_e2h_is_set = (\<lambda>v. sys_regs v HCR_EL2 AND 0x400000000 \<noteq> 0),
      vcpu_el2_tge_is_set = (\<lambda>v. sys_regs v HCR_EL2 AND 0x8000000 \<noteq> 0),
      kvm_inject_undefined =
        (\<lambda>v. v\<lparr>pending_faults := pending_faults v @ [UndefinedInstruction]\<rparr>),
      kvm_inject_vabt =
        (\<lambda>v. v\<lparr>pending_faults := pending_faults v @ [AsynchronousExternalAbort]\<rparr>),
      kvm_inject_nested_sync = arm64_inject_nested_sync,
      kvm_psci_call = arm64_psci_call,
      handle_hvc_nested = (\<lambda>v. (- 22, v)),
      handle_wfx_nested = arm64_handle_wfx_nested,
      kvm_vcpu_on_spin = (\<lambda>v. v),
      kvm_vcpu_block = (\<lambda>v. v\<lparr>requests := insert 3 (requests v)\<rparr>),
      kvm_skip_instr = (\<lambda>v is_wide_instr. v\<lparr>pc := pc v + (if is_wide_instr then 4 else 2)\<rparr>),
      extern_handler = (\<lambda>f v r. (1, v, r))\<rparr>"

text \<open>A vcpu at rest in EL1h at address 0x1004, and an empty run structure.\<close>

definition vcpu0 :: kvm_vcpu where
  "vcpu0 =
     \<lparr>pc = 0x1004, cpsr = 0x3C5, regs = (\<lambda>_. 0), esr_el2 = 0, far_el2 = 0,
      sys_regs = (\<lambda>_. 0), el2_special_regs = (\<lambda>_. 0), nested_virt = False,
      requests = {}, stat = \<lparr>hvc_exit_stat = 0, wfe_exit_stat = 0, wfi_exit_stat = 0\<rparr>,
      pending_faults = []\<rparr>"

definition run0 :: kvm_run where
  "run0 = \<lparr>exit_reason = 0, debug_arch_hsr = 0, debug_arch_far = 0\<rparr>"

definition ctx0 :: exit_ctx where
  "ctx0 = \<lparr>vcpu = vcpu0, run = run0, events = []\<rparr>"

section \<open>Properties\<close>

subsection \<open>The class handler table\<close>

lemma length_set_entry: "length t \<le> length (set_entry d t)"
  by (simp add: set_entry_def)

lemma set_entry_other:
  "i < length t \<Longrightarrow> i \<noteq> fst d \<Longrightarrow> set_entry d t ! i = t ! i"
  by (simp add: set_entry_def nth_append)

lemma set_entry_same:
  "fst d < length (set_entry d t) \<and> set_entry d t ! fst d = Some (snd d)"
  by (simp add: set_entry_def nth_append)

lemma fold_set_entry_other:
  "i < length t \<Longrightarrow> i \<notin> fst ` set ds \<Longrightarrow>
     i < length (fold set_entry ds t) \<and> fold set_entry ds t ! i = t ! i"
proof (induction ds arbitrary: t)
  case Nil
  then show ?case by simp
next
  case (Cons d ds)
  have len: "i < length (set_entry d t)"
    using Cons.prems(1) length_set_entry [of t d] by simp
  have ne: "i \<noteq> fst d" and rest: "i \<notin> fst ` set ds"
    using Cons.prems(2) by auto
  from Cons.IH [OF len rest] set_entry_other [OF Cons.prems(1) ne]
  show ?case by simp
qed

lemma fold_set_entry_last:
  "fst d \<notin> fst ` set ds \<Longrightarrow>
     fst d < length (fold set_entry (pre @ d # ds) t)
     \<and> fold set_entry (pre @ d # ds) t ! fst d = Some (snd d)"
  using fold_set_entry_other [of "fst d" "set_entry d (fold set_entry pre t)" ds]
    set_entry_same [of d "fold set_entry pre t"]
  by simp

lemma fold_set_entry_distinct:
  "distinct (map fst ds) \<Longrightarrow> d \<in> set ds \<Longrightarrow>
     fst d < length (fold set_entry ds t) \<and> fold set_entry ds t ! fst d = Some (snd d)"
proof -
  assume dist: "distinct (map fst ds)" and mem: "d \<in> set ds"
  from mem obtain pre post where ds: "ds = pre @ d # post"
    by (auto simp: in_set_conv_decomp)
  with dist have "fst d \<notin> fst ` set post" by auto
  from fold_set_entry_last [OF this, of pre t] ds show ?thesis by simp
qed

lemma kvm_get_exit_handler_designated:
  assumes "distinct (map fst (exit_handler_designators E))"
    and "(unat (ESR_ELx_EC E (kvm_vcpu_get_hsr v)), f) \<in> set (exit_handler_designators E)"
    and "unat (ESR_ELx_EC E (kvm_vcpu_get_hsr v)) < 256"
  shows "kvm_get_exit_handler E v = Inr (Some f)"
proof -
  have u8: "unat (ucast (ESR_ELx_EC E (kvm_vcpu_get_hsr v)) :: u8)
              = unat (ESR_ELx_EC E (kvm_vcpu_get_hsr v))"
    using assms(3) by (simp add: unsigned_ucast_eq take_bit_nat_eq_self)
  from fold_set_entry_distinct [OF assms(1) assms(2)] u8
  show ?thesis
    by (simp add: kvm_get_exit_handler_def arm_exit_handlers_def Let_def)
qed

text \<open>
  C8: every class code from 0 to \<open>ESR_ELx_EC_MAX\<close> that no designator of the table
  names is in range of the table and holds \<open>kvm_handle_unknown_ec\<close>; that handler
  prints the unknown class, injects an undefined-instruction fault into the guest and
  returns 1, leaving the run structure as it was.
\<close>

theorem unknown_ec_default:
  assumes "ec \<le> ESR_ELx_EC_MAX E"
    and "ec \<notin> fst ` set (exit_handler_designators E)"
  shows "ec < length (arm_exit_handlers E)
         \<and> arm_exit_handlers E ! ec = Some Kvm_handle_unknown_ec
         \<and> kvm_handle_unknown_ec E c =
             (1, c\<lparr>vcpu := kvm_inject_undefined E (vcpu c),
                   events := events c @ [Kvm_pr_unimpl_unknown_ec (kvm_vcpu_get_hsr (vcpu c)),
                                         Call_kvm_inject_undefined]\<rparr>)"
proof -
  define t where "t = replicate (ESR_ELx_EC_MAX E + 1) (Some Kvm_handle_unknown_ec)"
  have len: "ec < length t"
    using assms(1) by (simp add: t_def)
  have nth: "t ! ec = Some Kvm_handle_unknown_ec"
    using assms(1) by (simp add: t_def del: replicate_Suc)
  from fold_set_entry_other [OF len assms(2)] nth
  have "ec < length (arm_exit_handlers E)
         \<and> arm_exit_handlers E ! ec = Some Kvm_handle_unknown_ec"
    by (simp add: arm_exit_handlers_def t_def del: replicate_Suc)
  moreover have "kvm_handle_unknown_ec E c =
             (1, c\<lparr>vcpu := kvm_inject_undefined E (vcpu c),
                   events := events c @ [Kvm_pr_unimpl_unknown_ec (kvm_vcpu_get_hsr (vcpu c)),
                                         Call_kvm_inject_undefined]\<rparr>)"
    by (simp add: kvm_handle_unknown_ec_def do_kvm_inject_undefined_def emit_def)
  ultimately show ?thesis by simp
qed

text \<open>
  At class 0x15 (a supervisor call, which the table does not name).
\<close>

theorem unknown_ec_default_witness:
  "(21::nat) \<le> ESR_ELx_EC_MAX arm64_env
   \<and> 21 \<notin> fst ` set (exit_handler_designators arm64_env)
   \<and> arm_exit_handlers arm64_env ! 21 = Some Kvm_handle_unknown_ec
   \<and> fst (kvm_handle_unknown_ec arm64_env ctx0) = 1
   \<and> pending_faults (vcpu (snd (kvm_handle_unknown_ec arm64_env ctx0))) = [UndefinedInstruction]
   \<and> events (snd (kvm_handle_unknown_ec arm64_env ctx0)) =
        [Kvm_pr_unimpl_unknown_ec 0, Call_kvm_inject_undefined]"
proof -
  have h1: "(21::nat) \<le> ESR_ELx_EC_MAX arm64_env"
    by (simp add: arm64_env_def)
  have h2: "21 \<notin> fst ` set (exit_handler_designators arm64_env)"
    by (simp add: exit_handler_designators_def arm64_env_def)
  from unknown_ec_default [OF h1 h2, of ctx0] h1 h2
  show ?thesis
    by (simp add: arm64_env_def ctx0_def vcpu0_def kvm_vcpu_get_hsr_def)
qed

subsection \<open>The top-level exit state machine\<close>

text \<open>
  C1: when the raw exception index carries the pending-SError flag, \<open>handle_exit\<close>
  returns 1 after one call of \<open>kvm_inject_vabt\<close>, and nothing else happens. The vcpu
  handed to the injection has its PC lowered by the width of the trapped instruction (4
  when the syndrome says 32-bit, else 2) exactly when the exception class is one of
  HVC32, HVC64, SMC32, SMC64; for every other class it is the incoming vcpu, unchanged.
\<close>

theorem handle_exit_serror_pending:
  assumes "ARM_SERROR_PENDING E exception_index"
  shows "handle_exit E c exception_index =
           Inr (1, c\<lparr>vcpu := kvm_inject_vabt E
                      (if unat (ucast (ESR_ELx_EC E (kvm_vcpu_get_hsr (vcpu c))) :: u8) \<in>
                            {ESR_ELx_EC_HVC32 E, ESR_ELx_EC_HVC64 E,
                             ESR_ELx_EC_SMC32 E, ESR_ELx_EC_SMC64 E}
                       then (vcpu c)\<lparr>pc := pc (vcpu c) -
                              (if kvm_vcpu_trap_il_is32bit E (vcpu c) then 4 else 2)\<rparr>
                       else vcpu c),
                    events := events c @ [Call_kvm_inject_vabt]\<rparr>)"
  using assms
  by (simp add: handle_exit_def Let_def do_kvm_inject_vabt_def emit_def)

text \<open>
  A 32-bit HVC64 trap (syndrome 0x5A000000) with the SError flag on a trap exit: the PC
  goes from 0x1004 back to 0x1000 and the abort is pending.
\<close>

theorem handle_exit_serror_pending_witness:
  "ARM_SERROR_PENDING arm64_env 2147483650
   \<and> handle_exit arm64_env (ctx0\<lparr>vcpu := vcpu0\<lparr>esr_el2 := 0x5A000000\<rparr>\<rparr>) 2147483650 =
       Inr (1, ctx0\<lparr>vcpu := vcpu0\<lparr>esr_el2 := 0x5A000000, pc := 0x1000,
                                  pending_faults := [AsynchronousExternalAbort]\<rparr>,
                     events := [Call_kvm_inject_vabt]\<rparr>)"
proof -
  have h: "ARM_SERROR_PENDING arm64_env 2147483650"
    by (simp add: arm64_env_def)
  from handle_exit_serror_pending [OF h, of "ctx0\<lparr>vcpu := vcpu0\<lparr>esr_el2 := 0x5A000000\<rparr>\<rparr>"] h
  show ?thesis
    by (simp add: arm64_env_def ctx0_def vcpu0_def kvm_vcpu_get_hsr_def)
qed

text \<open>
  C2: on a trap exit without the SError flag (the case labels of the
  \<^verbatim>\<open>switch\<close> being distinct, as C requires), when the condition check of the
  trapped instruction fails, \<open>handle_exit\<close> returns 1 and its only effect is one call
  of the skip primitive; with a skip primitive that advances the PC by 4 for a 32-bit
  instruction and by 2 otherwise, the PC moves forward by exactly that width. No handler
  is looked up or called, whatever the exception class.
\<close>

theorem handle_exit_condition_false:
  assumes "\<not> ARM_SERROR_PENDING E exception_index"
    and "ARM_EXCEPTION_CODE E exception_index = ARM_EXCEPTION_TRAP E"
    and "ARM_EXCEPTION_TRAP E \<noteq> ARM_EXCEPTION_IRQ E"
    and "ARM_EXCEPTION_TRAP E \<noteq> ARM_EXCEPTION_EL1_SERROR E"
    and "\<not> kvm_condition_valid E (vcpu c)"
    and "\<And>v w. pc (kvm_skip_instr E v w) = pc v + (if w then 4 else 2)"
  shows "handle_exit E c exception_index =
           Inr (1, c\<lparr>vcpu := kvm_skip_instr E (vcpu c) (kvm_vcpu_trap_il_is32bit E (vcpu c)),
                    events := events c @
                      [Call_kvm_skip_instr (kvm_vcpu_trap_il_is32bit E (vcpu c))]\<rparr>)
         \<and> pc (vcpu (snd (projr (handle_exit E c exception_index)))) =
             pc (vcpu c) + (if kvm_vcpu_trap_il_is32bit E (vcpu c) then 4 else 2)"
  using assms
  by (simp add: handle_exit_def Let_def do_kvm_skip_instr_def emit_def)

text \<open>
  A 32-bit coprocessor access of an AArch32 guest (syndrome 0x0F000000) whose condition
  fails: the PC goes from 0x1004 to 0x1008.
\<close>

theorem handle_exit_condition_false_witness:
  "\<not> ARM_SERROR_PENDING arm64_env 2
   \<and> ARM_EXCEPTION_CODE arm64_env 2 = ARM_EXCEPTION_TRAP arm64_env
   \<and> ARM_EXCEPTION_TRAP arm64_env \<noteq> ARM_EXCEPTION_IRQ arm64_env
   \<and> ARM_EXCEPTION_TRAP arm64_env \<noteq> ARM_EXCEPTION_EL1_SERROR arm64_env
   \<and> \<not> kvm_condition_valid arm64_env (vcpu0\<lparr>cpsr := 0x1D3, esr_el2 := 0x0F000000\<rparr>)
   \<and> handle_exit arm64_env (ctx0\<lparr>vcpu := vcpu0\<lparr>cpsr := 0x1D3, esr_el2 := 0x0F000000\<rparr>\<rparr>) 2 =
       Inr (1, ctx0\<lparr>vcpu := vcpu0\<lparr>cpsr := 0x1D3, esr_el2 := 0x0F000000, pc := 0x1008\<rparr>,
                     events := [Call_kvm_skip_instr True]\<rparr>)"
proof -
  let ?c = "ctx0\<lparr>vcpu := vcpu0\<lparr>cpsr := 0x1D3, esr_el2 := 0x0F000000\<rparr>\<rparr>"
  have h1: "\<not> ARM_SERROR_PENDING arm64_env 2"
    and h2: "ARM_EXCEPTION_CODE arm64_env 2 = ARM_EXCEPTION_TRAP arm64_env"
    and h3: "ARM_EXCEPTION_TRAP arm64_env \<noteq> ARM_EXCEPTION_IRQ arm64_env"
    and h4: "ARM_EXCEPTION_TRAP arm64_env \<noteq> ARM_EXCEPTION_EL1_SERROR arm64_env"
    and h5: "\<not> kvm_condition_valid arm64_env (vcpu ?c)"
    by (simp_all add: arm64_env_def ctx0_def vcpu0_def)
  have h6: "\<And>v w. pc (kvm_skip_instr arm64_env v w) = pc v + (if w then 4 else 2)"
    by (simp add: arm64_env_def)
  from handle_exit_condition_false [OF h1 h2 h3 h4 h5 h6] h1 h2 h3 h4 h5
  show ?thesis
    by (simp add: arm64_env_def ctx0_def vcpu0_def)
qed

subsection \<open>Secure-monitor and hypervisor calls\<close>

text \<open>
  C3, as amended: for an SMC trap with a non-zero immediate, \<open>handle_smc\<close> injects an
  undefined-instruction fault and returns 1 when the trap is not forwarded to the virtual
  EL2 (\<open>forward_nv_traps\<close> false, or \<open>HCR_TSC\<close> clear in the virtual \<open>HCR_EL2\<close>);
  when it is forwarded, the handler returns what \<open>kvm_inject_nested_sync\<close> returns
  and injects no undefined fault. In both cases it makes exactly one call, and that call
  is not \<open>kvm_psci_call\<close>.
\<close>

theorem handle_smc_nonzero_imm:
  assumes "kvm_vcpu_hvc_get_imm E (vcpu c) \<noteq> 0"
  shows "(\<not> (forward_nv_traps E (vcpu c) \<and> vcpu_sys_reg (vcpu c) HCR_EL2 AND HCR_TSC E \<noteq> 0) \<longrightarrow>
            handle_smc E c =
              (1, c\<lparr>vcpu := kvm_inject_undefined E (vcpu c),
                    events := events c @ [Call_kvm_inject_undefined]\<rparr>))
       \<and> (forward_nv_traps E (vcpu c) \<and> vcpu_sys_reg (vcpu c) HCR_EL2 AND HCR_TSC E \<noteq> 0 \<longrightarrow>
            handle_smc E c =
              (fst (kvm_inject_nested_sync E (vcpu c) (kvm_vcpu_get_hsr (vcpu c))),
               c\<lparr>vcpu := snd (kvm_inject_nested_sync E (vcpu c) (kvm_vcpu_get_hsr (vcpu c))),
                 events := events c @ [Call_kvm_inject_nested_sync (kvm_vcpu_get_hsr (vcpu c))]\<rparr>))
       \<and> (\<exists>e. events (snd (handle_smc E c)) = events c @ [e] \<and> e \<noteq> Call_kvm_psci_call)"
  using assms
  by (simp add: handle_smc_def do_kvm_inject_undefined_def do_kvm_inject_nested_sync_def
      emit_def case_prod_beta)

text \<open>
  A 32-bit SMC64 with immediate 1 (syndrome 0x5E000001) on a vcpu without nested virtualization.
\<close>

theorem handle_smc_nonzero_imm_witness:
  "kvm_vcpu_hvc_get_imm arm64_env (vcpu0\<lparr>esr_el2 := 0x5E000001\<rparr>) \<noteq> 0
   \<and> \<not> forward_nv_traps arm64_env (vcpu0\<lparr>esr_el2 := 0x5E000001\<rparr>)
   \<and> handle_smc arm64_env (ctx0\<lparr>vcpu := vcpu0\<lparr>esr_el2 := 0x5E000001\<rparr>\<rparr>) =
       (1, ctx0\<lparr>vcpu := vcpu0\<lparr>esr_el2 := 0x5E000001,
                                pending_faults := [UndefinedInstruction]\<rparr>,
                 events := [Call_kvm_inject_undefined]\<rparr>)"
proof -
  let ?c = "ctx0\<lparr>vcpu := vcpu0\<lparr>esr_el2 := 0x5E000001\<rparr>\<rparr>"
  have h: "kvm_vcpu_hvc_get_imm arm64_env (vcpu ?c) \<noteq> 0"
    and n: "\<not> forward_nv_traps arm64_env (vcpu ?c)"
    by (simp_all add: arm64_env_def vcpu0_def)
  from handle_smc_nonzero_imm [OF h] n h
  show ?thesis
    by (simp add: arm64_env_def ctx0_def vcpu0_def)
qed

text \<open>
  The claim C3 as stated fails where the call is forwarded: the same SMC on a vcpu with
  nested virtualization, NV and TSC set in the virtual \<open>HCR_EL2\<close>. The handler forwards the
  trap and no undefined-instruction fault is injected.
\<close>

theorem handle_smc_forwarded_counterexample:
  "kvm_vcpu_hvc_get_imm arm64_env
      (vcpu0\<lparr>esr_el2 := 0x5E000001, nested_virt := True,
             sys_regs := (\<lambda>_. 0)(HCR_EL2 := 0x40000080000)\<rparr>) \<noteq> 0
   \<and> handle_smc arm64_env
        (ctx0\<lparr>vcpu := vcpu0\<lparr>esr_el2 := 0x5E000001, nested_virt := True,
                              sys_regs := (\<lambda>_. 0)(HCR_EL2 := 0x40000080000)\<rparr>\<rparr>) =
       (1, ctx0\<lparr>vcpu := vcpu0\<lparr>esr_el2 := 0x5E000001, nested_virt := True,
                                sys_regs := (\<lambda>_. 0)(HCR_EL2 := 0x40000080000),
                                pending_faults := [NestedSync 0x5E000001]\<rparr>,
                 events := [Call_kvm_inject_nested_sync 0x5E000001]\<rparr>)
   \<and> Call_kvm_inject_undefined \<notin> set (events (snd (handle_smc arm64_env
        (ctx0\<lparr>vcpu := vcpu0\<lparr>esr_el2 := 0x5E000001, nested_virt := True,
                              sys_regs := (\<lambda>_. 0)(HCR_EL2 := 0x40000080000)\<rparr>\<rparr>))))"
  by (simp add: handle_smc_def arm64_env_def ctx0_def vcpu0_def vcpu_sys_reg_def
      kvm_vcpu_get_hsr_def do_kvm_inject_nested_sync_def arm64_inject_nested_sync_def emit_def)

text \<open>
  C4, as amended: \<open>handle_hvc\<close> first fires the tracepoint with the PC, register 0
  and the immediate of the call, fires it once only, and leaves \<open>hvc_exit_stat\<close> one
  higher, whichever branch it takes afterwards; \<open>handle_smc\<close> fires no such
  tracepoint and leaves the counter as it was. The collaborators are assumed not to
  write the counter.
\<close>

theorem handle_hvc_counts_and_traces:
  assumes "\<And>v. hvc_exit_stat (stat (kvm_inject_undefined E v)) = hvc_exit_stat (stat v)"
    and "\<And>v. hvc_exit_stat (stat (snd (kvm_psci_call E v))) = hvc_exit_stat (stat v)"
    and "\<And>v esr. hvc_exit_stat (stat (snd (kvm_inject_nested_sync E v esr))) = hvc_exit_stat (stat v)"
    and "\<And>v. hvc_exit_stat (stat (snd (handle_hvc_nested E v))) = hvc_exit_stat (stat v)"
    and "\<And>v w. hvc_exit_stat (stat (kvm_skip_instr E v w)) = hvc_exit_stat (stat v)"
  shows "(\<exists>evs. events (snd (handle_hvc E c)) =
                  events c @ Trace_kvm_hvc_arm64 (pc (vcpu c)) (vcpu_get_reg (vcpu c) 0)
                               (kvm_vcpu_hvc_get_imm E (vcpu c)) # evs
                \<and> (\<forall>a b i. Trace_kvm_hvc_arm64 a b i \<notin> set evs))
       \<and> hvc_exit_stat (stat (vcpu (snd (handle_hvc E c)))) = hvc_exit_stat (stat (vcpu c)) + 1
       \<and> (\<exists>evs. events (snd (handle_smc E c)) = events c @ evs
                \<and> (\<forall>a b i. Trace_kvm_hvc_arm64 a b i \<notin> set evs))
       \<and> hvc_exit_stat (stat (vcpu (snd (handle_smc E c)))) = hvc_exit_stat (stat (vcpu c))"
proof (intro conjI)
  show "\<exists>evs. events (snd (handle_hvc E c)) =
                  events c @ Trace_kvm_hvc_arm64 (pc (vcpu c)) (vcpu_get_reg (vcpu c) 0)
                               (kvm_vcpu_hvc_get_imm E (vcpu c)) # evs
                \<and> (\<forall>a b i. Trace_kvm_hvc_arm64 a b i \<notin> set evs)"
    by (simp add: handle_hvc_def Let_def do_kvm_inject_undefined_def do_kvm_psci_call_def
        do_kvm_inject_nested_sync_def do_handle_hvc_nested_def emit_def case_prod_beta)
next
  show "hvc_exit_stat (stat (vcpu (snd (handle_hvc E c)))) = hvc_exit_stat (stat (vcpu c)) + 1"
    by (simp add: handle_hvc_def Let_def do_kvm_inject_undefined_def do_kvm_psci_call_def
        do_kvm_inject_nested_sync_def do_handle_hvc_nested_def emit_def case_prod_beta assms)
next
  show "\<exists>evs. events (snd (handle_smc E c)) = events c @ evs
                \<and> (\<forall>a b i. Trace_kvm_hvc_arm64 a b i \<notin> set evs)"
    by (simp add: handle_smc_def Let_def do_kvm_inject_undefined_def do_kvm_psci_call_def
        do_kvm_inject_nested_sync_def do_kvm_skip_instr_def emit_def case_prod_beta)
next
  show "hvc_exit_stat (stat (vcpu (snd (handle_smc E c)))) = hvc_exit_stat (stat (vcpu c))"
    by (simp add: handle_smc_def Let_def do_kvm_inject_undefined_def do_kvm_psci_call_def
        do_kvm_inject_nested_sync_def do_kvm_skip_instr_def emit_def
        case_prod_beta assms)
qed

text \<open>
  A 32-bit HVC64 with immediate 0 that asks the firmware-call stand-in for its version.
\<close>

theorem handle_hvc_counts_and_traces_witness:
  "events (snd (handle_hvc arm64_env
      (ctx0\<lparr>vcpu := vcpu0\<lparr>esr_el2 := 0x5A000000, regs := (\<lambda>_. 0)(0 := 0x84000000)\<rparr>\<rparr>))) =
     [Trace_kvm_hvc_arm64 0x1004 0x84000000 0, Call_kvm_psci_call]
   \<and> hvc_exit_stat (stat (vcpu (snd (handle_hvc arm64_env
      (ctx0\<lparr>vcpu := vcpu0\<lparr>esr_el2 := 0x5A000000, regs := (\<lambda>_. 0)(0 := 0x84000000)\<rparr>\<rparr>))))) = 1
   \<and> hvc_exit_stat (stat (vcpu (snd (handle_smc arm64_env
      (ctx0\<lparr>vcpu := vcpu0\<lparr>esr_el2 := 0x5A000000, regs := (\<lambda>_. 0)(0 := 0x84000000)\<rparr>\<rparr>))))) = 0"
proof -
  let ?c = "ctx0\<lparr>vcpu := vcpu0\<lparr>esr_el2 := 0x5A000000, regs := (\<lambda>_. 0)(0 := 0x84000000)\<rparr>\<rparr>"
  have f1: "\<And>v. hvc_exit_stat (stat (kvm_inject_undefined arm64_env v)) = hvc_exit_stat (stat v)"
    and f2: "\<And>v. hvc_exit_stat (stat (snd (kvm_psci_call arm64_env v))) = hvc_exit_stat (stat v)"
    and f3: "\<And>v esr. hvc_exit_stat (stat (snd (kvm_inject_nested_sync arm64_env v esr)))
               = hvc_exit_stat (stat v)"
    and f4: "\<And>v. hvc_exit_stat (stat (snd (handle_hvc_nested arm64_env v))) = hvc_exit_stat (stat v)"
    and f5: "\<And>v w. hvc_exit_stat (stat (kvm_skip_instr arm64_env v w)) = hvc_exit_stat (stat v)"
    by (simp_all add: arm64_env_def arm64_psci_call_def arm64_inject_nested_sync_def)
  have ev: "events (snd (handle_hvc arm64_env ?c)) =
     [Trace_kvm_hvc_arm64 0x1004 0x84000000 0, Call_kvm_psci_call]"
    by (simp add: handle_hvc_def Let_def do_kvm_psci_call_def nested_virt_in_use_def
        vcpu_get_reg_def emit_def case_prod_beta arm64_env_def arm64_psci_call_def
        ctx0_def vcpu0_def)
  from handle_hvc_counts_and_traces [OF f1 f2 f3 f4 f5, of ?c] ev
  show ?thesis
    by (simp add: ctx0_def vcpu0_def)
qed

text \<open>
  The claim C4 as stated fails for the SMC handler: an SMC64 with immediate 0 that the
  firmware-call service accepts is served and skipped, with no tracepoint and the counter
  unchanged.
\<close>

theorem handle_smc_no_count_counterexample:
  "handle_smc arm64_env
      (ctx0\<lparr>vcpu := vcpu0\<lparr>esr_el2 := 0x5E000000, regs := (\<lambda>_. 0)(0 := 0x84000000)\<rparr>\<rparr>) =
     (1, ctx0\<lparr>vcpu := vcpu0\<lparr>esr_el2 := 0x5E000000, regs := (\<lambda>_. 0)(0 := 0x10000),
                              pc := 0x1008\<rparr>,
               events := [Call_kvm_psci_call, Call_kvm_skip_instr True]\<rparr>)
   \<and> hvc_exit_stat (stat (vcpu (snd (handle_smc arm64_env
      (ctx0\<lparr>vcpu := vcpu0\<lparr>esr_el2 := 0x5E000000, regs := (\<lambda>_. 0)(0 := 0x84000000)\<rparr>\<rparr>))))) =
     hvc_exit_stat (stat (vcpu0\<lparr>esr_el2 := 0x5E000000, regs := (\<lambda>_. 0)(0 := 0x84000000)\<rparr>))"
  by (simp add: handle_smc_def arm64_env_def ctx0_def vcpu0_def vcpu_sys_reg_def
      do_kvm_psci_call_def arm64_psci_call_def do_kvm_skip_instr_def emit_def)

subsection \<open>Floating-point and vector traps\<close>




subsection \<open>Wait instructions\<close>

text \<open>
  C6, as amended: when the nested handler does not take the trap (nested virtualization
  is not in use, or \<open>handle_wfx_nested\<close> returns \<open>- EINVAL\<close> and leaves the PC, the
  counters and the instruction-length flag alone), \<open>kvm_handle_wfx\<close> returns 1 and
  leaves the run structure as it was. For WFE it fires the tracepoint, adds one to
  \<open>wfe_exit_stat\<close> and calls \<open>kvm_vcpu_on_spin\<close>; for WFI it fires the tracepoint,
  adds one to \<open>wfi_exit_stat\<close>, calls \<open>kvm_vcpu_block\<close> and, once that has returned,
  clears \<open>KVM_REQ_UNHALT\<close> with a single call. In both cases the last step is one call
  of the skip primitive with the instruction-length flag of the trapped instruction, so
  that the PC ends exactly one instruction further: 4 bytes when the syndrome says
  32-bit, else 2. The scheduler entry points are assumed not to write the PC, the
  counters or what the instruction-length flag reads (nor do the counters or the
  requests bear on that flag), and the skip primitive to advance the PC by 4 or 2 and
  to leave the counters and the requests alone; that \<open>kvm_vcpu_block\<close> returns is part
  of the model, where it is a total function.
\<close>

theorem kvm_handle_wfx_local:
  assumes wfe: "is_wfe = (kvm_vcpu_get_hsr (vcpu c) AND ESR_ELx_WFx_ISS_WFE E \<noteq> 0)"
    and local: "\<not> nested_virt_in_use (vcpu c)
       \<or> (fst (handle_wfx_nested E (vcpu c) is_wfe) = - EINVAL E \<and> 0 < EINVAL E
          \<and> stat (snd (handle_wfx_nested E (vcpu c) is_wfe)) = stat (vcpu c)
          \<and> pc (snd (handle_wfx_nested E (vcpu c) is_wfe)) = pc (vcpu c)
          \<and> kvm_vcpu_trap_il_is32bit E (snd (handle_wfx_nested E (vcpu c) is_wfe)) =
              kvm_vcpu_trap_il_is32bit E (vcpu c))"
    and spin: "\<And>v. stat (kvm_vcpu_on_spin E v) = stat v \<and> pc (kvm_vcpu_on_spin E v) = pc v
                 \<and> kvm_vcpu_trap_il_is32bit E (kvm_vcpu_on_spin E v) =
                     kvm_vcpu_trap_il_is32bit E v"
    and block: "\<And>v. stat (kvm_vcpu_block E v) = stat v \<and> pc (kvm_vcpu_block E v) = pc v
                 \<and> kvm_vcpu_trap_il_is32bit E (kvm_vcpu_block E v) =
                     kvm_vcpu_trap_il_is32bit E v"
    and skip: "\<And>v w. pc (kvm_skip_instr E v w) = pc v + (if w then 4 else 2)
                 \<and> stat (kvm_skip_instr E v w) = stat v
                 \<and> requests (kvm_skip_instr E v w) = requests v"
    and il_stat: "\<And>v s. kvm_vcpu_trap_il_is32bit E (v\<lparr>stat := s\<rparr>) =
                     kvm_vcpu_trap_il_is32bit E v"
    and il_requests: "\<And>v r. kvm_vcpu_trap_il_is32bit E (v\<lparr>requests := r\<rparr>) =
                     kvm_vcpu_trap_il_is32bit E v"
  shows "fst (kvm_handle_wfx E c) = 1
     \<and> run (snd (kvm_handle_wfx E c)) = run c
     \<and> events (snd (kvm_handle_wfx E c)) =
         events c
         @ (if nested_virt_in_use (vcpu c) then [Call_handle_wfx_nested is_wfe] else [])
         @ (if is_wfe
            then [Trace_kvm_wfx_arm64 (pc (vcpu c)) True, Call_kvm_vcpu_on_spin,
                  Call_kvm_skip_instr (kvm_vcpu_trap_il_is32bit E (vcpu c))]
            else [Trace_kvm_wfx_arm64 (pc (vcpu c)) False, Call_kvm_vcpu_block,
                  Call_kvm_clear_request (KVM_REQ_UNHALT E),
                  Call_kvm_skip_instr (kvm_vcpu_trap_il_is32bit E (vcpu c))])
     \<and> vcpu (snd (kvm_handle_wfx E c)) =
         kvm_skip_instr E
           (if is_wfe
            then kvm_vcpu_on_spin E
                   ((if nested_virt_in_use (vcpu c)
                     then snd (handle_wfx_nested E (vcpu c) is_wfe) else vcpu c)
                    \<lparr>stat := (stat (vcpu c))
                       \<lparr>wfe_exit_stat := wfe_exit_stat (stat (vcpu c)) + 1\<rparr>\<rparr>)
            else kvm_clear_request (KVM_REQ_UNHALT E)
                   (kvm_vcpu_block E
                      ((if nested_virt_in_use (vcpu c)
                        then snd (handle_wfx_nested E (vcpu c) is_wfe) else vcpu c)
                       \<lparr>stat := (stat (vcpu c))
                          \<lparr>wfi_exit_stat := wfi_exit_stat (stat (vcpu c)) + 1\<rparr>\<rparr>)))
           (kvm_vcpu_trap_il_is32bit E (vcpu c))
     \<and> pc (vcpu (snd (kvm_handle_wfx E c))) =
         pc (vcpu c) + (if kvm_vcpu_trap_il_is32bit E (vcpu c) then 4 else 2)
     \<and> wfe_exit_stat (stat (vcpu (snd (kvm_handle_wfx E c)))) =
         wfe_exit_stat (stat (vcpu c)) + (if is_wfe then 1 else 0)
     \<and> wfi_exit_stat (stat (vcpu (snd (kvm_handle_wfx E c)))) =
         wfi_exit_stat (stat (vcpu c)) + (if is_wfe then 0 else 1)
     \<and> (is_wfe \<or> KVM_REQ_UNHALT E \<notin> requests (vcpu (snd (kvm_handle_wfx E c))))"
proof (cases "nested_virt_in_use (vcpu c)")
  case False
  then show ?thesis
    using wfe spin block skip il_stat il_requests
    by (cases is_wfe)
       (simp_all add: kvm_handle_wfx_def Let_def do_kvm_vcpu_on_spin_def
          do_kvm_vcpu_block_def do_kvm_clear_request_def kvm_clear_request_def
          do_kvm_skip_instr_def emit_def)
next
  case True
  with local have d: "fst (handle_wfx_nested E (vcpu c) is_wfe) = - EINVAL E" "0 < EINVAL E"
    "stat (snd (handle_wfx_nested E (vcpu c) is_wfe)) = stat (vcpu c)"
    "pc (snd (handle_wfx_nested E (vcpu c) is_wfe)) = pc (vcpu c)"
    "kvm_vcpu_trap_il_is32bit E (snd (handle_wfx_nested E (vcpu c) is_wfe)) =
       kvm_vcpu_trap_il_is32bit E (vcpu c)"
    by simp_all
  show ?thesis
    using True wfe d spin block skip il_stat il_requests
    by (cases is_wfe)
       (simp_all add: kvm_handle_wfx_def Let_def do_handle_wfx_nested_def
          do_kvm_vcpu_on_spin_def do_kvm_vcpu_block_def do_kvm_clear_request_def
          kvm_clear_request_def do_kvm_skip_instr_def emit_def case_prod_beta)
qed

text \<open>
  A 32-bit WFE at 0x1004 on a vcpu without nested virtualization, and a 32-bit WFI with
  the unhalt request pending on a nested vcpu whose virtual \<open>HCR_EL2\<close> does not trap it:
  both end at 0x1008.
\<close>

theorem kvm_handle_wfx_local_witness:
  "kvm_handle_wfx arm64_env (ctx0\<lparr>vcpu := vcpu0\<lparr>esr_el2 := 0x06000001\<rparr>\<rparr>) =
     (1, ctx0\<lparr>vcpu := vcpu0\<lparr>esr_el2 := 0x06000001, pc := 0x1008,
                 stat := \<lparr>hvc_exit_stat = 0, wfe_exit_stat = 1, wfi_exit_stat = 0\<rparr>\<rparr>,
               events := [Trace_kvm_wfx_arm64 0x1004 True, Call_kvm_vcpu_on_spin,
                          Call_kvm_skip_instr True]\<rparr>)
   \<and> kvm_handle_wfx arm64_env
        (ctx0\<lparr>vcpu := vcpu0\<lparr>esr_el2 := 0x06000000, nested_virt := True, requests := {3}\<rparr>\<rparr>) =
     (1, ctx0\<lparr>vcpu := vcpu0\<lparr>esr_el2 := 0x06000000, nested_virt := True, requests := {},
                 pc := 0x1008,
                 stat := \<lparr>hvc_exit_stat = 0, wfe_exit_stat = 0, wfi_exit_stat = 1\<rparr>\<rparr>,
               events := [Call_handle_wfx_nested False, Trace_kvm_wfx_arm64 0x1004 False,
                          Call_kvm_vcpu_block, Call_kvm_clear_request 3,
                          Call_kvm_skip_instr True]\<rparr>)"
proof -
  let ?e = "ctx0\<lparr>vcpu := vcpu0\<lparr>esr_el2 := 0x06000001\<rparr>\<rparr>"
  let ?i = "ctx0\<lparr>vcpu := vcpu0\<lparr>esr_el2 := 0x06000000, nested_virt := True, requests := {3}\<rparr>\<rparr>"
  have spin: "\<And>v. stat (kvm_vcpu_on_spin arm64_env v) = stat v
                  \<and> pc (kvm_vcpu_on_spin arm64_env v) = pc v
                  \<and> kvm_vcpu_trap_il_is32bit arm64_env (kvm_vcpu_on_spin arm64_env v) =
                      kvm_vcpu_trap_il_is32bit arm64_env v"
    and block: "\<And>v. stat (kvm_vcpu_block arm64_env v) = stat v
                  \<and> pc (kvm_vcpu_block arm64_env v) = pc v
                  \<and> kvm_vcpu_trap_il_is32bit arm64_env (kvm_vcpu_block arm64_env v) =
                      kvm_vcpu_trap_il_is32bit arm64_env v"
    and skip: "\<And>v w. pc (kvm_skip_instr arm64_env v w) = pc v + (if w then 4 else 2)
                 \<and> stat (kvm_skip_instr arm64_env v w) = stat v
                 \<and> requests (kvm_skip_instr arm64_env v w) = requests v"
    and il_stat: "\<And>v s. kvm_vcpu_trap_il_is32bit arm64_env (v\<lparr>stat := s\<rparr>) =
                     kvm_vcpu_trap_il_is32bit arm64_env v"
    and il_requests: "\<And>v r. kvm_vcpu_trap_il_is32bit arm64_env (v\<lparr>requests := r\<rparr>) =
                     kvm_vcpu_trap_il_is32bit arm64_env v"
    by (simp_all add: arm64_env_def)
  have we: "True = (kvm_vcpu_get_hsr (vcpu ?e) AND ESR_ELx_WFx_ISS_WFE arm64_env \<noteq> 0)"
    and wi: "False = (kvm_vcpu_get_hsr (vcpu ?i) AND ESR_ELx_WFx_ISS_WFE arm64_env \<noteq> 0)"
    by (simp_all add: arm64_env_def kvm_vcpu_get_hsr_def vcpu0_def)
  have le: "\<not> nested_virt_in_use (vcpu ?e)
       \<or> (fst (handle_wfx_nested arm64_env (vcpu ?e) True) = - EINVAL arm64_env
          \<and> 0 < EINVAL arm64_env
          \<and> stat (snd (handle_wfx_nested arm64_env (vcpu ?e) True)) = stat (vcpu ?e)
          \<and> pc (snd (handle_wfx_nested arm64_env (vcpu ?e) True)) = pc (vcpu ?e)
          \<and> kvm_vcpu_trap_il_is32bit arm64_env (snd (handle_wfx_nested arm64_env (vcpu ?e) True)) =
              kvm_vcpu_trap_il_is32bit arm64_env (vcpu ?e))"
    by (simp add: nested_virt_in_use_def vcpu0_def)
  have li: "\<not> nested_virt_in_use (vcpu ?i)
       \<or> (fst (handle_wfx_nested arm64_env (vcpu ?i) False) = - EINVAL arm64_env
          \<and> 0 < EINVAL arm64_env
          \<and> stat (snd (handle_wfx_nested arm64_env (vcpu ?i) False)) = stat (vcpu ?i)
          \<and> pc (snd (handle_wfx_nested arm64_env (vcpu ?i) False)) = pc (vcpu ?i)
          \<and> kvm_vcpu_trap_il_is32bit arm64_env (snd (handle_wfx_nested arm64_env (vcpu ?i) False)) =
              kvm_vcpu_trap_il_is32bit arm64_env (vcpu ?i))"
    by (simp add: arm64_env_def arm64_handle_wfx_nested_def vcpu0_def)
  have e: "kvm_handle_wfx arm64_env ?e =
     (1, ctx0\<lparr>vcpu := vcpu0\<lparr>esr_el2 := 0x06000001, pc := 0x1008,
                 stat := \<lparr>hvc_exit_stat = 0, wfe_exit_stat = 1, wfi_exit_stat = 0\<rparr>\<rparr>,
               events := [Trace_kvm_wfx_arm64 0x1004 True, Call_kvm_vcpu_on_spin,
                          Call_kvm_skip_instr True]\<rparr>)"
    using kvm_handle_wfx_local [OF we le spin block skip il_stat il_requests]
    by (intro prod_eqI exit_ctx.equality)
       (simp_all add: nested_virt_in_use_def arm64_env_def ctx0_def vcpu0_def)
  have i: "kvm_handle_wfx arm64_env ?i =
     (1, ctx0\<lparr>vcpu := vcpu0\<lparr>esr_el2 := 0x06000000, nested_virt := True, requests := {},
                 pc := 0x1008,
                 stat := \<lparr>hvc_exit_stat = 0, wfe_exit_stat = 0, wfi_exit_stat = 1\<rparr>\<rparr>,
               events := [Call_handle_wfx_nested False, Trace_kvm_wfx_arm64 0x1004 False,
                          Call_kvm_vcpu_block, Call_kvm_clear_request 3,
                          Call_kvm_skip_instr True]\<rparr>)"
    using kvm_handle_wfx_local [OF wi li spin block skip il_stat il_requests]
    by (intro prod_eqI exit_ctx.equality)
       (simp_all add: nested_virt_in_use_def arm64_env_def arm64_handle_wfx_nested_def
          kvm_clear_request_def ctx0_def vcpu0_def)
  from e i show ?thesis by simp
qed

text \<open>
  The claim C6 as stated fails when the nested handler takes the trap: a WFI on a nested
  vcpu whose virtual \<open>HCR_EL2\<close> has TWI set is forwarded, and the handler returns at once;
  the block counter is not incremented and the instruction is not skipped.
\<close>

theorem kvm_handle_wfx_nested_counterexample:
  "kvm_handle_wfx arm64_env
      (ctx0\<lparr>vcpu := vcpu0\<lparr>esr_el2 := 0x06000000, nested_virt := True,
                            sys_regs := (\<lambda>_. 0)(HCR_EL2 := 0x2000)\<rparr>\<rparr>) =
     (1, ctx0\<lparr>vcpu := vcpu0\<lparr>esr_el2 := 0x06000000, nested_virt := True,
                              sys_regs := (\<lambda>_. 0)(HCR_EL2 := 0x2000),
                              pending_faults := [NestedSync 0x06000000]\<rparr>,
               events := [Call_handle_wfx_nested False]\<rparr>)
   \<and> wfi_exit_stat (stat (vcpu (snd (kvm_handle_wfx arm64_env
        (ctx0\<lparr>vcpu := vcpu0\<lparr>esr_el2 := 0x06000000, nested_virt := True,
                              sys_regs := (\<lambda>_. 0)(HCR_EL2 := 0x2000)\<rparr>\<rparr>))))) = 0
   \<and> pc (vcpu (snd (kvm_handle_wfx arm64_env
        (ctx0\<lparr>vcpu := vcpu0\<lparr>esr_el2 := 0x06000000, nested_virt := True,
                              sys_regs := (\<lambda>_. 0)(HCR_EL2 := 0x2000)\<rparr>\<rparr>)))) = 0x1004"
  by (simp add: kvm_handle_wfx_def Let_def do_handle_wfx_nested_def emit_def
      nested_virt_in_use_def kvm_vcpu_get_hsr_def arm64_handle_wfx_nested_def
      arm64_inject_nested_sync_def arm64_env_def ctx0_def vcpu0_def)

subsection \<open>Exception return\<close>

lemma mode_bits_replaced:
  fixes x :: "'a::len word"
  assumes "b AND m = b"
  shows "(x AND NOT m OR b) AND m = b"
proof -
  have "(x AND NOT m OR b) AND m = (x AND (NOT m AND m)) OR (b AND m)"
    by (simp add: bit.conj_disj_distrib2 and.assoc)
  then show ?thesis using assms by simp
qed

lemma other_bits_kept:
  fixes x :: "'a::len word"
  assumes "b AND m = b"
  shows "(x AND NOT m OR b) AND NOT m = x AND NOT m"
proof -
  have "b AND NOT m = (b AND m) AND NOT m"
    using assms by simp
  also have "\<dots> = 0"
    by (simp add: and.assoc)
  finally have z: "b AND NOT m = 0" .
  have "(x AND NOT m OR b) AND NOT m = (x AND (NOT m AND NOT m)) OR (b AND NOT m)"
    by (simp add: bit.conj_disj_distrib2 and.assoc)
  then show ?thesis using z by simp
qed

text \<open>
  C7: when the ERET trap is not forwarded, \<open>kvm_handle_eret\<close> returns 1 with the PC
  restored from \<open>ELR_EL2\<close>. If the status restored from \<open>SPSR_EL2\<close> is in an EL1 mode and E2H
  and TGE are set, the mode bits of the final status are EL2h when the restored mode was
  EL1h and EL2t when it was EL1t, and the bits outside the mode mask are those of
  \<open>SPSR_EL2\<close>. The two EL2 mode constants are assumed to lie within the mode mask, and
  EL1t to differ from EL1h.
\<close>

theorem kvm_handle_eret_mode:
  assumes "\<not> forward_nv_traps E (vcpu c)"
    and "PSR_MODE_EL2h E AND PSR_MODE_MASK E = PSR_MODE_EL2h E"
    and "PSR_MODE_EL2t E AND PSR_MODE_MASK E = PSR_MODE_EL2t E"
    and "(ucast (PSR_MODE_EL1t E) :: u32) \<noteq> ucast (PSR_MODE_EL1h E)"
  shows "fst (kvm_handle_eret E c) = 1
     \<and> pc (vcpu (snd (kvm_handle_eret E c))) = vcpu_el2_sreg (vcpu c) ELR_EL2
     \<and> (vcpu_mode_el1 E ((vcpu c)\<lparr>pc := vcpu_el2_sreg (vcpu c) ELR_EL2,
                                    cpsr := vcpu_el2_sreg (vcpu c) SPSR_EL2\<rparr>)
        \<and> vcpu_el2_e2h_is_set E ((vcpu c)\<lparr>pc := vcpu_el2_sreg (vcpu c) ELR_EL2,
                                    cpsr := vcpu_el2_sreg (vcpu c) SPSR_EL2\<rparr>)
        \<and> vcpu_el2_tge_is_set E ((vcpu c)\<lparr>pc := vcpu_el2_sreg (vcpu c) ELR_EL2,
                                    cpsr := vcpu_el2_sreg (vcpu c) SPSR_EL2\<rparr>) \<longrightarrow>
          (vcpu_el2_sreg (vcpu c) SPSR_EL2 AND PSR_MODE_MASK E = PSR_MODE_EL1h E \<longrightarrow>
             cpsr (vcpu (snd (kvm_handle_eret E c))) AND PSR_MODE_MASK E = PSR_MODE_EL2h E)
        \<and> (vcpu_el2_sreg (vcpu c) SPSR_EL2 AND PSR_MODE_MASK E = PSR_MODE_EL1t E \<longrightarrow>
             cpsr (vcpu (snd (kvm_handle_eret E c))) AND PSR_MODE_MASK E = PSR_MODE_EL2t E)
        \<and> cpsr (vcpu (snd (kvm_handle_eret E c))) AND NOT (PSR_MODE_MASK E) =
            vcpu_el2_sreg (vcpu c) SPSR_EL2 AND NOT (PSR_MODE_MASK E))"
  using assms
  by (simp add: kvm_handle_eret_def Let_def emit_def vcpu_el2_sreg_def
      mode_bits_replaced other_bits_kept)

text \<open>
  A nested vcpu with E2H and TGE set and NV clear in the virtual \<open>HCR_EL2\<close>, returning to
  0x80000 with \<open>SPSR_EL2\<close> = 0x3C5 (EL1h) and with \<open>SPSR_EL2\<close> = 0x3C4 (EL1t).
\<close>

theorem kvm_handle_eret_mode_witness:
  "\<not> forward_nv_traps arm64_env
        (vcpu0\<lparr>nested_virt := True, sys_regs := (\<lambda>_. 0)(HCR_EL2 := 0x408000000),
               el2_special_regs := (\<lambda>_. 0)(ELR_EL2 := 0x80000, SPSR_EL2 := 0x3C5)\<rparr>)
   \<and> fst (kvm_handle_eret arm64_env
        (ctx0\<lparr>vcpu := vcpu0\<lparr>nested_virt := True, sys_regs := (\<lambda>_. 0)(HCR_EL2 := 0x408000000),
               el2_special_regs := (\<lambda>_. 0)(ELR_EL2 := 0x80000, SPSR_EL2 := 0x3C5)\<rparr>\<rparr>)) = 1
   \<and> pc (vcpu (snd (kvm_handle_eret arm64_env
        (ctx0\<lparr>vcpu := vcpu0\<lparr>nested_virt := True, sys_regs := (\<lambda>_. 0)(HCR_EL2 := 0x408000000),
               el2_special_regs := (\<lambda>_. 0)(ELR_EL2 := 0x80000, SPSR_EL2 := 0x3C5)\<rparr>\<rparr>))))
       = 0x80000
   \<and> cpsr (vcpu (snd (kvm_handle_eret arm64_env
        (ctx0\<lparr>vcpu := vcpu0\<lparr>nested_virt := True, sys_regs := (\<lambda>_. 0)(HCR_EL2 := 0x408000000),
               el2_special_regs := (\<lambda>_. 0)(ELR_EL2 := 0x80000, SPSR_EL2 := 0x3C5)\<rparr>\<rparr>))))
         AND PSR_MODE_MASK arm64_env = PSR_MODE_EL2h arm64_env
   \<and> cpsr (vcpu (snd (kvm_handle_eret arm64_env
        (ctx0\<lparr>vcpu := vcpu0\<lparr>nested_virt := True, sys_regs := (\<lambda>_. 0)(HCR_EL2 := 0x408000000),
               el2_special_regs := (\<lambda>_. 0)(ELR_EL2 := 0x80000, SPSR_EL2 := 0x3C4)\<rparr>\<rparr>))))
         AND PSR_MODE_MASK arm64_env = PSR_MODE_EL2t arm64_env"
proof -
  let ?vh = "vcpu0\<lparr>nested_virt := True, sys_regs := (\<lambda>_. 0)(HCR_EL2 := 0x408000000),
               el2_special_regs := (\<lambda>_. 0)(ELR_EL2 := 0x80000, SPSR_EL2 := 0x3C5)\<rparr>"
  let ?vt = "vcpu0\<lparr>nested_virt := True, sys_regs := (\<lambda>_. 0)(HCR_EL2 := 0x408000000),
               el2_special_regs := (\<lambda>_. 0)(ELR_EL2 := 0x80000, SPSR_EL2 := 0x3C4)\<rparr>"
  have psr: "PSR_MODE_EL2h arm64_env AND PSR_MODE_MASK arm64_env = PSR_MODE_EL2h arm64_env"
    "PSR_MODE_EL2t arm64_env AND PSR_MODE_MASK arm64_env = PSR_MODE_EL2t arm64_env"
    "(ucast (PSR_MODE_EL1t arm64_env) :: u32) \<noteq> ucast (PSR_MODE_EL1h arm64_env)"
    by (simp_all add: arm64_env_def)
  have fh: "\<not> forward_nv_traps arm64_env (vcpu (ctx0\<lparr>vcpu := ?vh\<rparr>))"
    and ft: "\<not> forward_nv_traps arm64_env (vcpu (ctx0\<lparr>vcpu := ?vt\<rparr>))"
    by (simp_all add: arm64_env_def vcpu0_def)
  have stateh:
    "vcpu_mode_el1 arm64_env (?vh\<lparr>pc := vcpu_el2_sreg ?vh ELR_EL2, cpsr := vcpu_el2_sreg ?vh SPSR_EL2\<rparr>)"
    "vcpu_el2_e2h_is_set arm64_env (?vh\<lparr>pc := vcpu_el2_sreg ?vh ELR_EL2, cpsr := vcpu_el2_sreg ?vh SPSR_EL2\<rparr>)"
    "vcpu_el2_tge_is_set arm64_env (?vh\<lparr>pc := vcpu_el2_sreg ?vh ELR_EL2, cpsr := vcpu_el2_sreg ?vh SPSR_EL2\<rparr>)"
    "vcpu_el2_sreg ?vh SPSR_EL2 AND PSR_MODE_MASK arm64_env = PSR_MODE_EL1h arm64_env"
    "vcpu_el2_sreg ?vh ELR_EL2 = 0x80000"
    by (simp_all add: arm64_env_def vcpu0_def vcpu_el2_sreg_def)
  have statet:
    "vcpu_mode_el1 arm64_env (?vt\<lparr>pc := vcpu_el2_sreg ?vt ELR_EL2, cpsr := vcpu_el2_sreg ?vt SPSR_EL2\<rparr>)"
    "vcpu_el2_e2h_is_set arm64_env (?vt\<lparr>pc := vcpu_el2_sreg ?vt ELR_EL2, cpsr := vcpu_el2_sreg ?vt SPSR_EL2\<rparr>)"
    "vcpu_el2_tge_is_set arm64_env (?vt\<lparr>pc := vcpu_el2_sreg ?vt ELR_EL2, cpsr := vcpu_el2_sreg ?vt SPSR_EL2\<rparr>)"
    "vcpu_el2_sreg ?vt SPSR_EL2 AND PSR_MODE_MASK arm64_env = PSR_MODE_EL1t arm64_env"
    by (simp_all add: arm64_env_def vcpu0_def vcpu_el2_sreg_def)
  have vc: "vcpu (ctx0\<lparr>vcpu := ?vh\<rparr>) = ?vh" "vcpu (ctx0\<lparr>vcpu := ?vt\<rparr>) = ?vt"
    by simp_all
  from kvm_handle_eret_mode [OF fh psr] stateh
  have h: "fst (kvm_handle_eret arm64_env (ctx0\<lparr>vcpu := ?vh\<rparr>)) = 1"
    "pc (vcpu (snd (kvm_handle_eret arm64_env (ctx0\<lparr>vcpu := ?vh\<rparr>)))) = 0x80000"
    "cpsr (vcpu (snd (kvm_handle_eret arm64_env (ctx0\<lparr>vcpu := ?vh\<rparr>))))
         AND PSR_MODE_MASK arm64_env = PSR_MODE_EL2h arm64_env"
    unfolding vc by simp_all
  from kvm_handle_eret_mode [OF ft psr] statet
  have t: "cpsr (vcpu (snd (kvm_handle_eret arm64_env (ctx0\<lparr>vcpu := ?vt\<rparr>))))
         AND PSR_MODE_MASK arm64_env = PSR_MODE_EL2t arm64_env"
    unfolding vc by simp
  from fh h t show ?thesis by simp
qed

subsection \<open>Debug exceptions\<close>

text \<open>
  C9: for the watchpoint class with fault address 0x1000, \<open>kvm_handle_guest_debug\<close>
  returns 0 with \<open>exit_reason\<close> set to \<open>KVM_EXIT_DEBUG\<close>, the raw syndrome in the
  debug record and 0x1000 in its address field; for the other four debug classes it
  returns 0 with the same exit reason and syndrome and does not write the address field.
  The third part follows a trap exit of the watchpoint class from \<open>handle_exit\<close>
  through the table (no class designated twice) to the same outcome.
\<close>

theorem guest_debug_watchpoint:
  "(unat (ESR_ELx_EC E (kvm_vcpu_get_hsr (vcpu c))) = ESR_ELx_EC_WATCHPT_LOW E
      \<and> far_el2 (vcpu c) = 0x1000 \<longrightarrow>
      kvm_handle_guest_debug E c =
        (0, c\<lparr>run := (run c)\<lparr>exit_reason := KVM_EXIT_DEBUG E,
                              debug_arch_hsr := kvm_vcpu_get_hsr (vcpu c),
                              debug_arch_far := 0x1000\<rparr>\<rparr>))
   \<and> (unat (ESR_ELx_EC E (kvm_vcpu_get_hsr (vcpu c))) \<in>
        {ESR_ELx_EC_SOFTSTP_LOW E, ESR_ELx_EC_BREAKPT_LOW E,
         ESR_ELx_EC_BKPT32 E, ESR_ELx_EC_BRK64 E}
      \<and> unat (ESR_ELx_EC E (kvm_vcpu_get_hsr (vcpu c))) \<noteq> ESR_ELx_EC_WATCHPT_LOW E \<longrightarrow>
      kvm_handle_guest_debug E c =
        (0, c\<lparr>run := (run c)\<lparr>exit_reason := KVM_EXIT_DEBUG E,
                              debug_arch_hsr := kvm_vcpu_get_hsr (vcpu c)\<rparr>\<rparr>)
      \<and> debug_arch_far (run (snd (kvm_handle_guest_debug E c))) = debug_arch_far (run c))
   \<and> (\<not> ARM_SERROR_PENDING E exception_index
      \<and> ARM_EXCEPTION_CODE E exception_index = ARM_EXCEPTION_TRAP E
      \<and> ARM_EXCEPTION_TRAP E \<noteq> ARM_EXCEPTION_IRQ E
      \<and> ARM_EXCEPTION_TRAP E \<noteq> ARM_EXCEPTION_EL1_SERROR E
      \<and> kvm_condition_valid E (vcpu c)
      \<and> distinct (map fst (exit_handler_designators E))
      \<and> ESR_ELx_EC_WATCHPT_LOW E < 256
      \<and> unat (ESR_ELx_EC E (kvm_vcpu_get_hsr (vcpu c))) = ESR_ELx_EC_WATCHPT_LOW E
      \<and> far_el2 (vcpu c) = 0x1000 \<longrightarrow>
      handle_exit E c exception_index =
        Inr (0, c\<lparr>run := (run c)\<lparr>exit_reason := KVM_EXIT_DEBUG E,
                                  debug_arch_hsr := kvm_vcpu_get_hsr (vcpu c),
                                  debug_arch_far := 0x1000\<rparr>,
                    events := events c @ [Call_exit_handler Kvm_handle_guest_debug]\<rparr>))"
proof (intro conjI impI)
  assume "unat (ESR_ELx_EC E (kvm_vcpu_get_hsr (vcpu c))) = ESR_ELx_EC_WATCHPT_LOW E
      \<and> far_el2 (vcpu c) = 0x1000"
  then show "kvm_handle_guest_debug E c =
        (0, c\<lparr>run := (run c)\<lparr>exit_reason := KVM_EXIT_DEBUG E,
                              debug_arch_hsr := kvm_vcpu_get_hsr (vcpu c),
                              debug_arch_far := 0x1000\<rparr>\<rparr>)"
    by (simp add: kvm_handle_guest_debug_def Let_def)
next
  assume a: "unat (ESR_ELx_EC E (kvm_vcpu_get_hsr (vcpu c))) \<in>
        {ESR_ELx_EC_SOFTSTP_LOW E, ESR_ELx_EC_BREAKPT_LOW E,
         ESR_ELx_EC_BKPT32 E, ESR_ELx_EC_BRK64 E}
      \<and> unat (ESR_ELx_EC E (kvm_vcpu_get_hsr (vcpu c))) \<noteq> ESR_ELx_EC_WATCHPT_LOW E"
  then show r: "kvm_handle_guest_debug E c =
        (0, c\<lparr>run := (run c)\<lparr>exit_reason := KVM_EXIT_DEBUG E,
                              debug_arch_hsr := kvm_vcpu_get_hsr (vcpu c)\<rparr>\<rparr>)"
    by (auto simp add: kvm_handle_guest_debug_def Let_def)
  show "debug_arch_far (run (snd (kvm_handle_guest_debug E c))) = debug_arch_far (run c)"
    by (simp add: r)
next
  assume a: "\<not> ARM_SERROR_PENDING E exception_index
      \<and> ARM_EXCEPTION_CODE E exception_index = ARM_EXCEPTION_TRAP E
      \<and> ARM_EXCEPTION_TRAP E \<noteq> ARM_EXCEPTION_IRQ E
      \<and> ARM_EXCEPTION_TRAP E \<noteq> ARM_EXCEPTION_EL1_SERROR E
      \<and> kvm_condition_valid E (vcpu c)
      \<and> distinct (map fst (exit_handler_designators E))
      \<and> ESR_ELx_EC_WATCHPT_LOW E < 256
      \<and> unat (ESR_ELx_EC E (kvm_vcpu_get_hsr (vcpu c))) = ESR_ELx_EC_WATCHPT_LOW E
      \<and> far_el2 (vcpu c) = 0x1000"
  have mem: "(unat (ESR_ELx_EC E (kvm_vcpu_get_hsr (vcpu c))), Kvm_handle_guest_debug)
               \<in> set (exit_handler_designators E)"
    using a by (simp add: exit_handler_designators_def)
  have look: "kvm_get_exit_handler E (vcpu c) = Inr (Some Kvm_handle_guest_debug)"
    using a by (intro kvm_get_exit_handler_designated [OF _ mem]) simp_all
  have dbg: "kvm_handle_guest_debug E (emit (Call_exit_handler Kvm_handle_guest_debug) c) =
      (0, c\<lparr>run := (run c)\<lparr>exit_reason := KVM_EXIT_DEBUG E,
                                  debug_arch_hsr := kvm_vcpu_get_hsr (vcpu c),
                                  debug_arch_far := 0x1000\<rparr>,
                    events := events c @ [Call_exit_handler Kvm_handle_guest_debug]\<rparr>)"
    using a by (simp add: kvm_handle_guest_debug_def Let_def emit_def)
  show "handle_exit E c exception_index =
        Inr (0, c\<lparr>run := (run c)\<lparr>exit_reason := KVM_EXIT_DEBUG E,
                                  debug_arch_hsr := kvm_vcpu_get_hsr (vcpu c),
                                  debug_arch_far := 0x1000\<rparr>,
                    events := events c @ [Call_exit_handler Kvm_handle_guest_debug]\<rparr>)"
    using a by (simp add: handle_exit_def Let_def look call_exit_handler_def dbg)
qed

text \<open>
  A watchpoint (syndrome 0xD2000000) and a BRK64 (syndrome 0xF2000000).
\<close>

theorem guest_debug_watchpoint_witness:
  "unat (ESR_ELx_EC arm64_env 0xD2000000) = ESR_ELx_EC_WATCHPT_LOW arm64_env
   \<and> unat (ESR_ELx_EC arm64_env 0xF2000000) = ESR_ELx_EC_BRK64 arm64_env
   \<and> \<not> ARM_SERROR_PENDING arm64_env 2
   \<and> ARM_EXCEPTION_CODE arm64_env 2 = ARM_EXCEPTION_TRAP arm64_env
   \<and> kvm_condition_valid arm64_env (vcpu0\<lparr>esr_el2 := 0xD2000000, far_el2 := 0x1000\<rparr>)
   \<and> distinct (map fst (exit_handler_designators arm64_env))
   \<and> kvm_handle_guest_debug arm64_env
        (ctx0\<lparr>vcpu := vcpu0\<lparr>esr_el2 := 0xD2000000, far_el2 := 0x1000\<rparr>\<rparr>) =
       (0, ctx0\<lparr>vcpu := vcpu0\<lparr>esr_el2 := 0xD2000000, far_el2 := 0x1000\<rparr>,
                 run := \<lparr>exit_reason = 4, debug_arch_hsr = 0xD2000000,
                          debug_arch_far = 0x1000\<rparr>\<rparr>)
   \<and> kvm_handle_guest_debug arm64_env
        (ctx0\<lparr>vcpu := vcpu0\<lparr>esr_el2 := 0xF2000000, far_el2 := 0x1000\<rparr>\<rparr>) =
       (0, ctx0\<lparr>vcpu := vcpu0\<lparr>esr_el2 := 0xF2000000, far_el2 := 0x1000\<rparr>,
                 run := \<lparr>exit_reason = 4, debug_arch_hsr = 0xF2000000,
                          debug_arch_far = 0\<rparr>\<rparr>)
   \<and> handle_exit arm64_env
        (ctx0\<lparr>vcpu := vcpu0\<lparr>esr_el2 := 0xD2000000, far_el2 := 0x1000\<rparr>\<rparr>) 2 =
       Inr (0, ctx0\<lparr>vcpu := vcpu0\<lparr>esr_el2 := 0xD2000000, far_el2 := 0x1000\<rparr>,
                     run := \<lparr>exit_reason = 4, debug_arch_hsr = 0xD2000000,
                              debug_arch_far = 0x1000\<rparr>,
                     events := [Call_exit_handler Kvm_handle_guest_debug]\<rparr>)"
proof -
  let ?w = "ctx0\<lparr>vcpu := vcpu0\<lparr>esr_el2 := 0xD2000000, far_el2 := 0x1000\<rparr>\<rparr>"
  let ?b = "ctx0\<lparr>vcpu := vcpu0\<lparr>esr_el2 := 0xF2000000, far_el2 := 0x1000\<rparr>\<rparr>"
  have ecw: "unat (ESR_ELx_EC arm64_env 0xD2000000) = ESR_ELx_EC_WATCHPT_LOW arm64_env"
    and ecb: "unat (ESR_ELx_EC arm64_env 0xF2000000) = ESR_ELx_EC_BRK64 arm64_env"
    by (simp_all add: arm64_env_def)
  have top: "\<not> ARM_SERROR_PENDING arm64_env 2"
    "ARM_EXCEPTION_CODE arm64_env 2 = ARM_EXCEPTION_TRAP arm64_env"
    "ARM_EXCEPTION_TRAP arm64_env \<noteq> ARM_EXCEPTION_IRQ arm64_env"
    "ARM_EXCEPTION_TRAP arm64_env \<noteq> ARM_EXCEPTION_EL1_SERROR arm64_env"
    "kvm_condition_valid arm64_env (vcpu0\<lparr>esr_el2 := 0xD2000000, far_el2 := 0x1000\<rparr>)"
    "ESR_ELx_EC_WATCHPT_LOW arm64_env < 256"
    by (simp_all add: arm64_env_def vcpu0_def)
  have dist: "distinct (map fst (exit_handler_designators arm64_env))"
    by (simp add: exit_handler_designators_def arm64_env_def)
  have fields: "kvm_vcpu_get_hsr (vcpu ?w) = 0xD2000000" "far_el2 (vcpu ?w) = 0x1000"
    "kvm_vcpu_get_hsr (vcpu ?b) = 0xF2000000"
    "ESR_ELx_EC_BRK64 arm64_env \<noteq> ESR_ELx_EC_WATCHPT_LOW arm64_env"
    "KVM_EXIT_DEBUG arm64_env = 4" "vcpu ?w = vcpu0\<lparr>esr_el2 := 0xD2000000, far_el2 := 0x1000\<rparr>"
    by (simp_all add: kvm_vcpu_get_hsr_def ctx0_def vcpu0_def arm64_env_def)
  from guest_debug_watchpoint [of arm64_env ?w 2] ecw top dist fields
  have w: "kvm_handle_guest_debug arm64_env ?w =
        (0, ?w\<lparr>run := (run ?w)\<lparr>exit_reason := 4, debug_arch_hsr := 0xD2000000,
                              debug_arch_far := 0x1000\<rparr>\<rparr>)"
    and x: "handle_exit arm64_env ?w 2 =
        Inr (0, ?w\<lparr>run := (run ?w)\<lparr>exit_reason := 4, debug_arch_hsr := 0xD2000000,
                                  debug_arch_far := 0x1000\<rparr>,
                    events := events ?w @ [Call_exit_handler Kvm_handle_guest_debug]\<rparr>)"
    by simp_all
  from guest_debug_watchpoint [of arm64_env ?b 2] ecb fields
  have b: "kvm_handle_guest_debug arm64_env ?b =
        (0, ?b\<lparr>run := (run ?b)\<lparr>exit_reason := 4, debug_arch_hsr := 0xF2000000\<rparr>\<rparr>)"
    by simp
  show ?thesis
    using ecw ecb top dist
    by (simp add: w b x) (simp add: ctx0_def run0_def)
qed

text \<open>
  C10: for a class outside the five debug classes, \<open>kvm_handle_guest_debug\<close> returns
  -1, and the run structure it leaves has \<open>exit_reason\<close> set to
  \<open>KVM_EXIT_DEBUG\<close> and the raw syndrome stored: it equals the incoming run structure
  only if that already held both values.
\<close>

theorem guest_debug_unrecognised:
  assumes "unat (ESR_ELx_EC E (kvm_vcpu_get_hsr (vcpu c))) \<notin>
             {ESR_ELx_EC_WATCHPT_LOW E, ESR_ELx_EC_SOFTSTP_LOW E, ESR_ELx_EC_BREAKPT_LOW E,
              ESR_ELx_EC_BKPT32 E, ESR_ELx_EC_BRK64 E}"
  shows "fst (kvm_handle_guest_debug E c) = - 1
         \<and> run (snd (kvm_handle_guest_debug E c)) =
             (run c)\<lparr>exit_reason := KVM_EXIT_DEBUG E,
                      debug_arch_hsr := kvm_vcpu_get_hsr (vcpu c)\<rparr>
         \<and> (run (snd (kvm_handle_guest_debug E c)) = run c) =
             (exit_reason (run c) = KVM_EXIT_DEBUG E
              \<and> debug_arch_hsr (run c) = kvm_vcpu_get_hsr (vcpu c))"
proof -
  have r: "kvm_handle_guest_debug E c =
      (- 1, c\<lparr>run := (run c)\<lparr>exit_reason := KVM_EXIT_DEBUG E,
                      debug_arch_hsr := kvm_vcpu_get_hsr (vcpu c)\<rparr>,
              events := events c @ [Kvm_err_unhandled_hsr (kvm_vcpu_get_hsr (vcpu c))]\<rparr>)"
    using assms by (simp add: kvm_handle_guest_debug_def Let_def emit_def)
  have e: "((run c)\<lparr>exit_reason := KVM_EXIT_DEBUG E,
                      debug_arch_hsr := kvm_vcpu_get_hsr (vcpu c)\<rparr> = run c) =
             (exit_reason (run c) = KVM_EXIT_DEBUG E
              \<and> debug_arch_hsr (run c) = kvm_vcpu_get_hsr (vcpu c))"
    by (cases "run c") auto
  show ?thesis using e by (simp add: r)
qed

text \<open>
  An HVC64 syndrome handed to the debug handler, on the empty run structure.
\<close>

theorem guest_debug_unrecognised_witness:
  "unat (ESR_ELx_EC arm64_env (kvm_vcpu_get_hsr (vcpu0\<lparr>esr_el2 := 0x5A000000\<rparr>))) \<notin>
     {ESR_ELx_EC_WATCHPT_LOW arm64_env, ESR_ELx_EC_SOFTSTP_LOW arm64_env,
      ESR_ELx_EC_BREAKPT_LOW arm64_env, ESR_ELx_EC_BKPT32 arm64_env,
      ESR_ELx_EC_BRK64 arm64_env}
   \<and> fst (kvm_handle_guest_debug arm64_env (ctx0\<lparr>vcpu := vcpu0\<lparr>esr_el2 := 0x5A000000\<rparr>\<rparr>)) = - 1
   \<and> run (snd (kvm_handle_guest_debug arm64_env (ctx0\<lparr>vcpu := vcpu0\<lparr>esr_el2 := 0x5A000000\<rparr>\<rparr>))) =
       \<lparr>exit_reason = 4, debug_arch_hsr = 0x5A000000, debug_arch_far = 0\<rparr>
   \<and> run (snd (kvm_handle_guest_debug arm64_env (ctx0\<lparr>vcpu := vcpu0\<lparr>esr_el2 := 0x5A000000\<rparr>\<rparr>)))
       \<noteq> run0"
proof -
  let ?c = "ctx0\<lparr>vcpu := vcpu0\<lparr>esr_el2 := 0x5A000000\<rparr>\<rparr>"
  have h: "unat (ESR_ELx_EC arm64_env (kvm_vcpu_get_hsr (vcpu ?c))) \<notin>
     {ESR_ELx_EC_WATCHPT_LOW arm64_env, ESR_ELx_EC_SOFTSTP_LOW arm64_env,
      ESR_ELx_EC_BREAKPT_LOW arm64_env, ESR_ELx_EC_BKPT32 arm64_env,
      ESR_ELx_EC_BRK64 arm64_env}"
    by (simp add: arm64_env_def kvm_vcpu_get_hsr_def vcpu0_def)
  from guest_debug_unrecognised [OF h] h
  show ?thesis
    by (simp add: arm64_env_def kvm_vcpu_get_hsr_def ctx0_def vcpu0_def run0_def)
qed

end
